theory Spec2Isabelle
  imports Complex_Main
begin

section \<open>JavaScript values\<close>

text \<open>
  A JavaScript string is modelled as a \<^typ>\<open>string\<close>; a \<^typ>\<open>char\<close> stands for a code unit
  below 256.  A JavaScript number is either \<open>NaN\<close> or \<open>Num q\<close>, which stands for the double
  that the rational \<open>q\<close> rounds to: rounding itself is not modelled.

  The clients build their write request as untyped object literals (\<open>any[]\<close>), so the
  request is a \<open>jsval\<close>: an object is the list of its own properties, each key once, in
  insertion order.
\<close>

datatype jsnum = NaN | Num rat

datatype jsval =
    JUndefined
  | JNull
  | JBool bool
  | JNumber jsnum
  | JString string
  | JArray "jsval list"
  | JObject "(string \<times> jsval) list"

text \<open>Truthiness of a string: only the empty string is falsy.\<close>

definition truthy :: "string \<Rightarrow> bool" where
  "truthy s = (s \<noteq> [])"

section \<open>Character classes of the scrape patterns\<close>

text \<open>\<open>\w\<close> is \<open>[A-Za-z0-9_]\<close>.\<close>

definition is_word :: "char \<Rightarrow> bool" where
  "is_word c = (c \<in> set (''abcdefghijklmnopqrstuvwxyz'' @ ''ABCDEFGHIJKLMNOPQRSTUVWXYZ''
                          @ ''0123456789'' @ ''_''))"

text \<open>
  \<open>\s\<close>, and what \<open>trim\<close> removes: tab, line feed, vertical tab, form feed, carriage
  return, space and no-break space (the white space and line terminators below 256).
\<close>

definition is_space :: "char \<Rightarrow> bool" where
  "is_space c = (c \<in> set [CHR 0x09, CHR 0x0A, CHR 0x0B, CHR 0x0C, CHR 0x0D, CHR 0x20, CHR 0xA0])"

definition is_digit :: "char \<Rightarrow> bool" where
  "is_digit c = (c \<in> set ''0123456789'')"

text \<open>\<open>[0-9.]\<close>\<close>

definition is_digit_dot :: "char \<Rightarrow> bool" where
  "is_digit_dot c = (is_digit c \<or> c = CHR ''.'')"

section \<open>The line pattern\<close>

text \<open>
  \<^verbatim>\<open>line.match(/^(\w+)(\{[^}]*\})?\s+([0-9.]+)/)\<close>

  Every quantifier of the pattern is greedy and is followed by a character that the
  quantified class excludes, so giving characters back never produces a match: the matcher
  takes each maximal run.  The result holds the three capture groups; the second is
  \<open>None\<close> when the optional group took no part in the match (\<open>undefined\<close>).
\<close>

text \<open>\<^verbatim>\<open>(\{[^}]*\})?\<close> at the head of \<open>s\<close>: the captured block and what follows it.\<close>

definition match_block :: "string \<Rightarrow> string option \<times> string" where
  "match_block s =
     (case s of
        [] \<Rightarrow> (None, s)
      | c # cs \<Rightarrow>
          if c = CHR ''{'' then
            (case dropWhile (\<lambda>x. x \<noteq> CHR ''}'') cs of
               [] \<Rightarrow> (None, s)
             | _ # rest \<Rightarrow> (Some (CHR ''{'' # takeWhile (\<lambda>x. x \<noteq> CHR ''}'') cs @ ''}''), rest))
          else (None, s))"

definition match_line :: "string \<Rightarrow> (string \<times> string option \<times> string) option" where
  "match_line line =
     (let name = takeWhile is_word line;
          (labelsStr, r) = match_block (dropWhile is_word line);
          ws = takeWhile is_space r;
          value = takeWhile is_digit_dot (dropWhile is_space r)
      in if name = [] \<or> ws = [] \<or> value = [] then None
         else Some (name, labelsStr, value))"

section \<open>The label pattern\<close>

text \<open>
  \<^verbatim>\<open>/(\w+)="([^"]*)"/\<close>

  \<open>match_label_at\<close> tries the pattern at the head of \<open>s\<close> and returns the two captures
  and the text after the match; \<open>find_label\<close> is the search for the leftmost match.
\<close>

definition match_label_at :: "string \<Rightarrow> (string \<times> string \<times> string) option" where
  "match_label_at s =
     (let n = takeWhile is_word s in
      if n = [] then None
      else (case dropWhile is_word s of
              e # q # r \<Rightarrow>
                if e = CHR ''='' \<and> q = CHR 0x22 then
                  (case dropWhile (\<lambda>x. x \<noteq> CHR 0x22) r of
                     [] \<Rightarrow> None
                   | _ # rest \<Rightarrow> Some (n, takeWhile (\<lambda>x. x \<noteq> CHR 0x22) r, rest))
                else None
            | _ \<Rightarrow> None))"

fun find_label :: "string \<Rightarrow> (string \<times> string \<times> string) option" where
  "find_label [] = None"
| "find_label (c # cs) =
     (case match_label_at (c # cs) of
        Some m \<Rightarrow> Some m
      | None \<Rightarrow> find_label cs)"

text \<open>The text a match covers: \<open>name="value"\<close>.\<close>

definition matched_text :: "string \<Rightarrow> string \<Rightarrow> string" where
  "matched_text n v = n @ [CHR ''='', CHR 0x22] @ v @ [CHR 0x22]"

lemma match_label_at_shorter:
  "match_label_at s = Some (n, v, rest) \<Longrightarrow> length rest < length s"
proof -
  assume a: "match_label_at s = Some (n, v, rest)"
  have len_dw: "\<And>P (xs::string). length (dropWhile P xs) \<le> length xs"
    by (simp add: length_dropWhile_le)
  from a obtain e q r where d: "dropWhile is_word s = e # q # r"
    by (auto simp: match_label_at_def Let_def split: if_splits list.splits)
  from a d obtain x where r: "dropWhile (\<lambda>x. x \<noteq> CHR 0x22) r = x # rest"
    by (auto simp: match_label_at_def Let_def split: if_splits list.splits)
  have "length (x # rest) \<le> length r" using len_dw[of "\<lambda>x. x \<noteq> CHR 0x22" r] r by simp
  moreover have "length (e # q # r) \<le> length s" using len_dw[of is_word s] d by simp
  ultimately show ?thesis by simp
qed

lemma find_label_shorter:
  "find_label s = Some (n, v, rest) \<Longrightarrow> length rest < length s"
proof (induction s)
  case Nil
  then show ?case by simp
next
  case (Cons c cs)
  show ?case
  proof (cases "match_label_at (c # cs)")
    case None
    with Cons show ?thesis by fastforce
  next
    case (Some m)
    with Cons.prems have "match_label_at (c # cs) = Some (n, v, rest)" by simp
    then show ?thesis by (rule match_label_at_shorter)
  qed
qed

text \<open>
  \<^verbatim>\<open>labelsStr.match(/(\w+)="([^"]*)"/g)\<close>: with the \<open>g\<close> flag the result is the list of
  the matched texts, each search resuming where the previous match ended.  JavaScript
  returns \<open>null\<close> instead of an empty array; the caller skips its loop on \<open>null\<close>, which
  is what the loop over the empty list does.
\<close>

function match_all :: "string \<Rightarrow> string list" where
  "match_all s =
     (case find_label s of
        None \<Rightarrow> []
      | Some (n, v, rest) \<Rightarrow> matched_text n v # match_all rest)"
  by pat_completeness auto
termination
  by (relation "measure length") (auto dest: find_label_shorter)

section \<open>Numbers in the exposition text\<close>

fun digit_val :: "char \<Rightarrow> nat" where
  "digit_val c = of_char c - 48"

text \<open>The value of a run of decimal digits, most significant first.\<close>

definition digits_val :: "string \<Rightarrow> nat" where
  "digits_val ds = foldl (\<lambda>a c. 10 * a + digit_val c) 0 ds"

text \<open>
  \<open>parseFloat\<close> on a text over \<open>[0-9.]\<close>, the only texts the third capture group of
  the line pattern yields: the longest prefix that is a decimal literal (digits, then
  optionally a dot and digits, with a digit on at least one side), and \<open>NaN\<close> when there
  is no such prefix.  Signs, exponents, \<open>Infinity\<close> and leading white space cannot occur
  in such a text and are not modelled.
\<close>

definition parseFloat :: "string \<Rightarrow> jsnum" where
  "parseFloat s =
     (let ip = takeWhile is_digit s;
          fp = (case dropWhile is_digit s of
                  [] \<Rightarrow> []
                | c # r \<Rightarrow> if c = CHR ''.'' then takeWhile is_digit r else [])
      in if ip = [] \<and> fp = [] then NaN
         else Num (of_nat (digits_val ip) + of_nat (digits_val fp) / 10 ^ length fp))"

section \<open>The text exposition scraper\<close>

text \<open>The object literals of the scrape loop.\<close>

definition Label :: "string \<Rightarrow> string \<Rightarrow> jsval" where
  "Label n v = JObject [(''name'', JString n), (''value'', JString v)]"

definition Sample :: "jsnum \<Rightarrow> int \<Rightarrow> jsval" where
  "Sample x t = JObject [(''value'', JNumber x), (''timestamp'', JNumber (Num (of_int t)))]"

definition TimeSeries :: "jsval list \<Rightarrow> jsval list \<Rightarrow> jsval" where
  "TimeSeries ls ss = JObject [(''labels'', JArray ls), (''samples'', JArray ss)]"

text \<open>\<^verbatim>\<open>metrics.split('\n')\<close>\<close>

fun split_nl :: "string \<Rightarrow> string list" where
  "split_nl [] = [[]]"
| "split_nl (c # cs) =
     (if c = CHR 0x0A then [] # split_nl cs
      else (case split_nl cs of
              [] \<Rightarrow> [[c]]
            | l # ls \<Rightarrow> (c # l) # ls))"

text \<open>\<^verbatim>\<open>line.trim() && !line.startsWith('#')\<close>\<close>

definition keep_line :: "string \<Rightarrow> bool" where
  "keep_line line =
     (truthy (dropWhile is_space line) \<and> \<not> (case line of [] \<Rightarrow> False | c # _ \<Rightarrow> c = CHR ''#''))"

text \<open>
  The inner loop over \<open>labelMatches\<close>: each matched text is matched again, without the
  \<open>g\<close> flag, for its captures, and pushed when both captures are truthy.
\<close>

fun push_labels :: "string list \<Rightarrow> jsval list \<Rightarrow> jsval list" where
  "push_labels [] labels = labels"
| "push_labels (labelMatch # ms) labels =
     push_labels ms
       (case find_label labelMatch of
          None \<Rightarrow> labels
        | Some (labelName, labelValue, _) \<Rightarrow>
            if truthy labelName \<and> truthy labelValue
            then labels @ [Label labelName labelValue]
            else labels)"

text \<open>The body of the outer loop: what one line appends to \<open>timeseries\<close>.\<close>

definition scrape_line :: "int \<Rightarrow> string \<Rightarrow> jsval list" where
  "scrape_line timestamp line =
     (case match_line line of
        None \<Rightarrow> []
      | Some (name, labelsStr, value) \<Rightarrow>
          if truthy name \<and> truthy value then
            (let labels = [Label ''__name__'' name];
                 labels' = (case labelsStr of
                              None \<Rightarrow> labels
                            | Some str \<Rightarrow>
                                if truthy str then push_labels (match_all str) labels
                                else labels)
             in [TimeSeries labels' [Sample (parseFloat value) timestamp]])
          else [])"

fun scrape_loop :: "int \<Rightarrow> string list \<Rightarrow> jsval list \<Rightarrow> jsval list" where
  "scrape_loop timestamp [] timeseries = timeseries"
| "scrape_loop timestamp (line # lines) timeseries =
     scrape_loop timestamp lines (timeseries @ scrape_line timestamp line)"

text \<open>
  Lines 68 to 104 of \<open>metricsToRemoteWrite\<close>: \<open>metrics\<close> is the text the registry
  returned and \<open>timestamp\<close> the value of \<open>Date.now()\<close>, read once before the loop.
\<close>

definition scrape :: "int \<Rightarrow> string \<Rightarrow> jsval list" where
  "scrape timestamp metrics =
     scrape_loop timestamp (filter keep_line (split_nl metrics)) []"

section \<open>Schema validation\<close>

text \<open>
  \<open>WriteRequest.verify\<close> is the verifier that protobufjs derives from the schema the
  clients declare in \<open>prometheusProto\<close>:
  \<^verbatim>\<open>
  message WriteRequest { repeated TimeSeries timeseries = 1; }
  message TimeSeries   { repeated Label labels = 1; repeated Sample samples = 2; }
  message Label        { string name = 1; string value = 2; }
  message Sample       { double value = 1; int64 timestamp = 2; }
  \<close>
  For each message it answers \<open>object expected\<close> unless the value is a non-null object,
  then checks every field that is present (an own property, neither \<open>undefined\<close> nor
  \<open>null\<close>) against its declared type, a repeated field element by element, and returns
  the first complaint or \<open>null\<close> (\<open>None\<close>).  No field of a proto3 schema is required, and
  a repeated field has no minimum length.
\<close>

text \<open>Reading a property: arrays and primitive values have none of the schema's fields.\<close>

fun get_prop :: "jsval \<Rightarrow> string \<Rightarrow> jsval" where
  "get_prop (JObject fs) k = (case map_of fs k of Some v \<Rightarrow> v | None \<Rightarrow> JUndefined)"
| "get_prop _ k = JUndefined"

text \<open>\<^verbatim>\<open>typeof m === "object" && m !== null\<close>\<close>

fun is_object :: "jsval \<Rightarrow> bool" where
  "is_object (JObject _) = True"
| "is_object (JArray _) = True"
| "is_object _ = False"

text \<open>\<^verbatim>\<open>m.f != null && m.hasOwnProperty("f")\<close>\<close>

definition present :: "jsval \<Rightarrow> string \<Rightarrow> bool" where
  "present m f = (get_prop m f \<noteq> JUndefined \<and> get_prop m f \<noteq> JNull)"

fun is_string :: "jsval \<Rightarrow> bool" where
  "is_string (JString _) = True"
| "is_string _ = False"

fun is_number :: "jsval \<Rightarrow> bool" where
  "is_number (JNumber _) = True"
| "is_number _ = False"

text \<open>\<open>util.isInteger\<close>: a finite number equal to its floor.\<close>

fun is_integer :: "jsval \<Rightarrow> bool" where
  "is_integer (JNumber (Num q)) = (of_int \<lfloor>q\<rfloor> = q)"
| "is_integer _ = False"

text \<open>\<^verbatim>\<open>x && util.isInteger(x.low) && util.isInteger(x.high)\<close>: a \<open>Long\<close>-like object.\<close>

fun is_long :: "jsval \<Rightarrow> bool" where
  "is_long (JObject fs) =
     (is_integer (get_prop (JObject fs) ''low'') \<and> is_integer (get_prop (JObject fs) ''high''))"
| "is_long _ = False"

definition Label_verify :: "jsval \<Rightarrow> string option" where
  "Label_verify m =
     (if \<not> is_object m then Some ''object expected''
      else if present m ''name'' \<and> \<not> is_string (get_prop m ''name'')
        then Some ''name: string expected''
      else if present m ''value'' \<and> \<not> is_string (get_prop m ''value'')
        then Some ''value: string expected''
      else None)"

definition Sample_verify :: "jsval \<Rightarrow> string option" where
  "Sample_verify m =
     (if \<not> is_object m then Some ''object expected''
      else if present m ''value'' \<and> \<not> is_number (get_prop m ''value'')
        then Some ''value: number expected''
      else if present m ''timestamp''
              \<and> \<not> is_integer (get_prop m ''timestamp'') \<and> \<not> is_long (get_prop m ''timestamp'')
        then Some ''timestamp: integer|Long expected''
      else None)"

text \<open>The loop over a repeated message field: the first complaint, prefixed by the field.\<close>

fun verify_each :: "(jsval \<Rightarrow> string option) \<Rightarrow> string \<Rightarrow> jsval list \<Rightarrow> string option" where
  "verify_each f pre [] = None"
| "verify_each f pre (x # xs) =
     (case f x of
        Some e \<Rightarrow> Some (pre @ e)
      | None \<Rightarrow> verify_each f pre xs)"

definition verify_repeated ::
  "(jsval \<Rightarrow> string option) \<Rightarrow> jsval \<Rightarrow> string \<Rightarrow> string option" where
  "verify_repeated f m field =
     (if present m field then
        (case get_prop m field of
           JArray xs \<Rightarrow> verify_each f (field @ ''.'') xs
         | _ \<Rightarrow> Some (field @ '': array expected''))
      else None)"

definition TimeSeries_verify :: "jsval \<Rightarrow> string option" where
  "TimeSeries_verify m =
     (if \<not> is_object m then Some ''object expected''
      else (case verify_repeated Label_verify m ''labels'' of
              Some e \<Rightarrow> Some e
            | None \<Rightarrow> verify_repeated Sample_verify m ''samples''))"

definition WriteRequest_verify :: "jsval \<Rightarrow> string option" where
  "WriteRequest_verify m =
     (if \<not> is_object m then Some ''object expected''
      else verify_repeated TimeSeries_verify m ''timeseries'')"

section \<open>The encode step\<close>

text \<open>
  What a server answers with.  A query answers with JSON of the shape the test scripts
  declare as \<open>PrometheusResponse\<close>: \<open>status\<close>, \<open>data\<close> with its \<open>result\<close> (a list of series,
  each with its \<open>metric\<close> labels and a \<open>value\<close> pair of time and text) and the optional
  \<open>error\<close>.  The second field is \<open>None\<close> when \<open>data\<close> is missing and \<open>Some None\<close> when
  \<open>data\<close> has no \<open>result\<close>.  Every other answer is a text.
\<close>

datatype query_result = QueryResult "(string \<times> string) list" jsnum string

datatype prometheus_response =
  PrometheusResponse string "query_result list option option" "string option"

datatype body = Text string | Json prometheus_response

text \<open>
  What a \<open>catch\<close> clause can receive: an \<open>Error\<close> with its message, an error of the HTTP
  client with its message and, when the server answered, the status and data of the
  response, or a thrown value that is not an \<open>Error\<close>.
\<close>

datatype error = Error string | AxiosError string "(nat \<times> body) option" | NonError

text \<open>
  Lines 106 to 119 of \<open>metricsToRemoteWrite\<close>.  The serializer
  (\<open>WriteRequest.encode(WriteRequest.create(_)).finish()\<close>) and the compressor
  (\<open>snappy.compress\<close>) belong to libraries and are parameters.
\<close>

definition WriteRequest :: "jsval list \<Rightarrow> jsval" where
  "WriteRequest timeseries = JObject [(''timeseries'', JArray timeseries)]"

definition encode_request ::
  "(jsval \<Rightarrow> 'b) \<Rightarrow> ('b \<Rightarrow> 'c) \<Rightarrow> jsval list \<Rightarrow> error + 'c" where
  "encode_request encode compress timeseries =
     (let writeRequest = WriteRequest timeseries in
      case WriteRequest_verify writeRequest of
        Some errMsg \<Rightarrow> Inl (Error (''Protobuf validation failed: '' @ errMsg))
      | None \<Rightarrow> Inr (compress (encode writeRequest)))"

definition metricsToRemoteWrite ::
  "(jsval \<Rightarrow> 'b) \<Rightarrow> ('b \<Rightarrow> 'c) \<Rightarrow> string \<Rightarrow> int \<Rightarrow> error + 'c" where
  "metricsToRemoteWrite encode compress metrics timestamp =
     encode_request encode compress (scrape timestamp metrics)"

text \<open>
  The schema in words, for comparison with the verifier: a field may be absent; when
  present it has the declared type, and a repeated field is an array, of any length, of
  values of the element type.
\<close>

definition field_ok :: "jsval \<Rightarrow> string \<Rightarrow> (jsval \<Rightarrow> bool) \<Rightarrow> bool" where
  "field_ok m f P = (\<not> present m f \<or> P (get_prop m f))"

fun array_of :: "(jsval \<Rightarrow> bool) \<Rightarrow> jsval \<Rightarrow> bool" where
  "array_of P (JArray xs) = list_all P xs"
| "array_of P _ = False"

definition Label_ok :: "jsval \<Rightarrow> bool" where
  "Label_ok m = (is_object m \<and> field_ok m ''name'' is_string \<and> field_ok m ''value'' is_string)"

definition Sample_ok :: "jsval \<Rightarrow> bool" where
  "Sample_ok m =
     (is_object m \<and> field_ok m ''value'' is_number
      \<and> field_ok m ''timestamp'' (\<lambda>x. is_integer x \<or> is_long x))"

definition TimeSeries_ok :: "jsval \<Rightarrow> bool" where
  "TimeSeries_ok m =
     (is_object m \<and> field_ok m ''labels'' (array_of Label_ok)
      \<and> field_ok m ''samples'' (array_of Sample_ok))"

section \<open>The label pairs of a block\<close>

text \<open>
  The pairs that the label pattern scrapes from a text, in the order encountered: the
  captures of the successive leftmost matches.
\<close>

function scan_pairs :: "string \<Rightarrow> (string \<times> string) list" where
  "scan_pairs s =
     (case find_label s of
        None \<Rightarrow> []
      | Some (n, v, rest) \<Rightarrow> (n, v) # scan_pairs rest)"
  by pat_completeness auto
termination
  by (relation "measure length") (auto dest: find_label_shorter)


definition label_of :: "string \<times> string \<Rightarrow> jsval" where
  "label_of p = Label (fst p) (snd p)"

definition has_value :: "string \<times> string \<Rightarrow> bool" where
  "has_value p = (snd p \<noteq> [])"

text \<open>The scraped pairs with a non-empty value, as label objects.\<close>

definition kept_labels :: "string \<Rightarrow> jsval list" where
  "kept_labels str = map label_of (filter has_value (scan_pairs str))"

text \<open>
  A label block as the exposition format writes it, for a list of label pairs:
  \<open>{n1="v1",n2="v2"}\<close>.
\<close>

fun render_pairs :: "(string \<times> string) list \<Rightarrow> string" where
  "render_pairs [] = []"
| "render_pairs [p] = matched_text (fst p) (snd p)"
| "render_pairs (p # q # ps) = matched_text (fst p) (snd p) @ '','' @ render_pairs (q # ps)"

definition render_block :: "(string \<times> string) list \<Rightarrow> string" where
  "render_block ps = ''{'' @ render_pairs ps @ ''}''"

section \<open>Console, network and control flow\<close>

text \<open>
  The messages are the source's without their leading pictographs.  Texts that depend on
  the clock or on number formatting are read from the environment.
\<close>

datatype log_entry = Log string | Err string

text \<open>
  The calls that leave the process: \<open>axios.post(url, data, {headers, timeout})\<close>,
  \<open>axios.get(url, {params, timeout})\<close> and the push helper
  \<open>pushMetrics(metrics, {url, headers})\<close> of the \<open>prometheus-remote-write\<close> package, which
  makes the HTTP request of the simple path itself.
\<close>

datatype 'p call =
    Post string 'p "(string \<times> string) list" nat
  | Get string "(string \<times> string) list" nat
  | PushMetrics "(string \<times> jsnum) list" string "(string \<times> string) list"

text \<open>
  What the network does with a request: a response with its status and data, or none
  (connection refused, timeout), with the message of the error.  The push helper sends its
  request over the same network and then either resolves or rejects its promise.
\<close>

datatype outcome = Response nat body | NoResponse string

datatype push_outcome = Resolved | Rejected error

text \<open>
  The environment of a run.  \<open>http\<close> answers the call made after \<open>n\<close> earlier calls;
  \<open>helper\<close> is what the push helper, a library, does with the outcome of its request: the
  repository does not decide on which outcomes it rejects.  \<open>clock\<close> is the text of \<open>new Date().toISOString()\<close>, \<open>num_text\<close> the text of a
  number in a template, \<open>iso_time\<close> the text of
  \<open>new Date(parseInt(t.toString()) * 1000).toISOString()\<close>, which throws a \<open>RangeError\<close>
  on an invalid date, and \<open>random\<close> the three draws of \<open>Math.random()\<close>.
\<close>

record 'p env =
  env_PROMETHEUS_URL :: "string option"
  http :: "nat \<Rightarrow> 'p call \<Rightarrow> outcome"
  helper :: "nat \<Rightarrow> 'p call \<Rightarrow> outcome \<Rightarrow> push_outcome"
  clock :: string
  num_text :: "jsnum \<Rightarrow> string"
  iso_time :: "jsnum \<Rightarrow> error + string"
  random :: "rat \<times> rat \<times> rat"

text \<open>What a run leaves behind: the console and the calls made, oldest first.\<close>

record 'p world =
  console :: "log_entry list"
  calls :: "'p call list"

text \<open>\<^verbatim>\<open>process.env.PROMETHEUS_URL || 'http://localhost:9090'\<close>\<close>

definition PROMETHEUS_URL :: "('p, 'x) env_scheme \<Rightarrow> string" where
  "PROMETHEUS_URL e =
     (case env_PROMETHEUS_URL e of
        Some u \<Rightarrow> if truthy u then u else ''http://localhost:9090''
      | None \<Rightarrow> ''http://localhost:9090'')"

text \<open>A computation runs in a world and returns a value or throws.\<close>

type_synonym ('a, 'p) io = "'p world \<Rightarrow> (error + 'a) \<times> 'p world"

definition return_io :: "'a \<Rightarrow> ('a, 'p) io" where
  "return_io x w = (Inr x, w)"

definition of_result :: "error + 'a \<Rightarrow> ('a, 'p) io" where
  "of_result r w = (r, w)"

definition bind_io :: "('a, 'p) io \<Rightarrow> ('a \<Rightarrow> ('b, 'p) io) \<Rightarrow> ('b, 'p) io" where
  "bind_io m f w =
     (case m w of
        (Inl err, w') \<Rightarrow> (Inl err, w')
      | (Inr x, w') \<Rightarrow> f x w')"

text \<open>\<^verbatim>\<open>try { body } catch (error) { handler }\<close>\<close>

definition try_catch :: "('a, 'p) io \<Rightarrow> (error \<Rightarrow> ('a, 'p) io) \<Rightarrow> ('a, 'p) io" where
  "try_catch body handler w =
     (case body w of
        (Inl err, w') \<Rightarrow> handler err w'
      | (Inr x, w') \<Rightarrow> (Inr x, w'))"

definition console_log :: "string \<Rightarrow> (unit, 'p) io" where
  "console_log s w = (Inr (), w\<lparr>console := console w @ [Log s]\<rparr>)"

definition console_error :: "string \<Rightarrow> (unit, 'p) io" where
  "console_error s w = (Inr (), w\<lparr>console := console w @ [Err s]\<rparr>)"

text \<open>Decimal text of a natural number.\<close>

fun show_nat :: "nat \<Rightarrow> string" where
  "show_nat n =
     (if n < 10 then [char_of (48 + n)]
      else show_nat (n div 10) @ [char_of (48 + n mod 10)])"

text \<open>
  An \<open>axios\<close> request.  With the default \<open>validateStatus\<close> the promise resolves on a status
  from 200 to 299 and rejects on any other; it also rejects when no response arrives.
\<close>

definition axios :: "('p, 'x) env_scheme \<Rightarrow> 'p call \<Rightarrow> (nat \<times> body, 'p) io" where
  "axios e req w =
     (let w' = w\<lparr>calls := calls w @ [req]\<rparr> in
      case http e (length (calls w)) req of
        Response status d \<Rightarrow>
          if 200 \<le> status \<and> status < 300 then (Inr (status, d), w')
          else (Inl (AxiosError (''Request failed with status code '' @ show_nat status)
                                (Some (status, d))), w')
      | NoResponse msg \<Rightarrow> (Inl (AxiosError msg None), w'))"

text \<open>\<^verbatim>\<open>error instanceof Error ? error.message : 'Unknown error'\<close>\<close>

fun error_message :: "error \<Rightarrow> string" where
  "error_message (Error m) = m"
| "error_message (AxiosError m _) = m"
| "error_message NonError = ''Unknown error''"

text \<open>The text of response data in a template.\<close>

fun body_text :: "body \<Rightarrow> string" where
  "body_text (Text s) = s"
| "body_text (Json _) = ''[object Object]''"

section \<open>The full write path\<close>

text \<open>
  What the full client reads besides the common environment: the serializer and the
  compressor, the text \<open>register.metrics()\<close> returns, the value of \<open>Date.now()\<close>, and the
  two \<open>toFixed(2)\<close> texts that \<open>updateMetrics\<close> prints.
\<close>

record ('b, 'p) full_env = "'p env" +
  serializer :: "jsval \<Rightarrow> 'b"
  compressor :: "'b \<Rightarrow> 'p"
  register_metrics :: string
  date_now :: int
  gauge_text :: string
  duration_text :: string

text \<open>The \<open>catch\<close> block of \<open>sendMetricsToPrometheus\<close> in the full client.\<close>

definition send_failed :: "error \<Rightarrow> (unit, 'p) io" where
  "send_failed err =
     bind_io (console_error (''Failed to send metrics to Prometheus: '' @ error_message err))
       (\<lambda>_. case err of
               AxiosError _ (Some (status, d)) \<Rightarrow>
                 bind_io (console_error (''   Response status: '' @ show_nat status))
                   (\<lambda>_. console_error (''   Response data: '' @ body_text d))
             | _ \<Rightarrow> return_io ())"

definition write_headers :: "(string \<times> string) list" where
  "write_headers =
     [(''Content-Type'', ''application/x-protobuf''),
      (''Content-Encoding'', ''snappy''),
      (''X-Prometheus-Remote-Write-Version'', ''0.1.0'')]"

definition write_request :: "('p, 'x) env_scheme \<Rightarrow> 'p \<Rightarrow> 'p call" where
  "write_request e compressedData =
     Post (PROMETHEUS_URL e @ ''/api/v1/write'') compressedData write_headers 5000"

text \<open>
  \<open>sendMetricsToPrometheus\<close>, given what awaiting \<open>metricsToRemoteWrite()\<close> gave: the
  compressed data, or the error it threw.
\<close>

definition send_payload :: "('p, 'x) env_scheme \<Rightarrow> error + 'p \<Rightarrow> (unit, 'p) io" where
  "send_payload e encoded =
     try_catch
       (bind_io (of_result encoded)
          (\<lambda>compressedData.
             bind_io (axios e (write_request e compressedData))
               (\<lambda>response.
                  bind_io (console_log (''Metrics sent to Prometheus at '' @ clock e))
                    (\<lambda>_. console_log (''   Response status: '' @ show_nat (fst response))))))
       send_failed"

definition sendMetricsToPrometheus :: "('b, 'p, 'x) full_env_scheme \<Rightarrow> (unit, 'p) io" where
  "sendMetricsToPrometheus e =
     send_payload e
       (metricsToRemoteWrite (serializer e) (compressor e) (register_metrics e) (date_now e))"

text \<open>
  \<open>updateMetrics\<close> changes the registry, whose text is read from the environment, and
  prints one line.
\<close>

definition updateMetrics :: "('b, 'p, 'x) full_env_scheme \<Rightarrow> (unit, 'p) io" where
  "updateMetrics e =
     console_log (''Updated metrics - Gauge: '' @ gauge_text e @ '', Duration: ''
                  @ duration_text e @ ''s'')"

definition generateAndSendMetrics :: "('b, 'p, 'x) full_env_scheme \<Rightarrow> (unit, 'p) io" where
  "generateAndSendMetrics e = bind_io (updateMetrics e) (\<lambda>_. sendMetricsToPrometheus e)"

section \<open>The simple write path\<close>

text \<open>\<open>generateMetrics\<close> of the simple client, on the three random draws.\<close>

definition generateMetrics :: "('p, 'x) env_scheme \<Rightarrow> (string \<times> jsnum) list" where
  "generateMetrics e =
     (case random e of
        (r1, r2, r3) \<Rightarrow>
          [(''demo_counter_total'', Num (of_int \<lfloor>r1 * 100\<rfloor> + 1)),
           (''demo_gauge'', Num (r2 * 100)),
           (''demo_duration_seconds'', Num (r3 * 3)),
           (''custom_metric'', Num 42)])"

fun log_each :: "('p, 'x) env_scheme \<Rightarrow> (string \<times> jsnum) list \<Rightarrow> (unit, 'p) io" where
  "log_each e [] = return_io ()"
| "log_each e (m # ms) =
     bind_io (console_log (''   - '' @ fst m @ '' = '' @ num_text e (snd m)))
       (\<lambda>_. log_each e ms)"

text \<open>
  One call of the push helper: it makes one request and resolves or rejects as the
  environment says.  The client awaits the promise and discards the value it resolves
  with.
\<close>

definition pushMetrics ::
  "('p, 'x) env_scheme \<Rightarrow> (string \<times> jsnum) list \<Rightarrow> string \<Rightarrow> (string \<times> string) list
     \<Rightarrow> (unit, 'p) io" where
  "pushMetrics e metrics url headers w =
     (let req = PushMetrics metrics url headers;
          w' = w\<lparr>calls := calls w @ [req]\<rparr> in
      case helper e (length (calls w)) req (http e (length (calls w)) req) of
        Resolved \<Rightarrow> (Inr (), w')
      | Rejected err \<Rightarrow> (Inl err, w'))"

definition push_headers :: "(string \<times> string) list" where
  "push_headers = [(''X-Prometheus-Remote-Write-Version'', ''0.1.0'')]"

definition push_request :: "('p, 'x) env_scheme \<Rightarrow> 'p call" where
  "push_request e =
     PushMetrics (generateMetrics e) (PROMETHEUS_URL e @ ''/api/v1/write'') push_headers"

text \<open>What the push helper does with the request of the simple client, made as call \<open>n\<close>.\<close>

definition helper_outcome :: "('p, 'x) env_scheme \<Rightarrow> nat \<Rightarrow> push_outcome" where
  "helper_outcome e n = helper e n (push_request e) (http e n (push_request e))"

definition simple_sendMetricsToPrometheus :: "('p, 'x) env_scheme \<Rightarrow> (unit, 'p) io" where
  "simple_sendMetricsToPrometheus e =
     try_catch
       (bind_io (return_io (generateMetrics e))
          (\<lambda>metrics.
             bind_io (console_log (''Sending '' @ show_nat (length metrics)
                                   @ '' metrics to Prometheus...''))
               (\<lambda>_. bind_io (log_each e metrics)
                  (\<lambda>_. bind_io (pushMetrics e metrics (PROMETHEUS_URL e @ ''/api/v1/write'')
                                   push_headers)
                     (\<lambda>_. console_log (''Metrics sent to Prometheus at '' @ clock e))))))
       (\<lambda>err. console_error (''Failed to send metrics to Prometheus: '' @ error_message err))"

definition simple_generateAndSendMetrics :: "('p, 'x) env_scheme \<Rightarrow> (unit, 'p) io" where
  "simple_generateAndSendMetrics e = simple_sendMetricsToPrometheus e"

section \<open>The test scripts\<close>

text \<open>Both test scripts import \<open>generateAndSendMetrics\<close> from the simple client.\<close>

definition health_request :: "('p, 'x) env_scheme \<Rightarrow> 'p call" where
  "health_request e = Get (PROMETHEUS_URL e @ ''/-/healthy'') [] 5000"

definition getPrometheusStatus :: "'p env \<Rightarrow> (bool, 'p) io" where
  "getPrometheusStatus e =
     try_catch
       (bind_io (console_log ''Checking Prometheus status...'')
          (\<lambda>_. bind_io (axios e (health_request e))
             (\<lambda>response.
                bind_io (console_log (''Prometheus is healthy ('' @ show_nat (fst response) @ '')''))
                  (\<lambda>_. return_io True))))
       (\<lambda>err. bind_io (console_error (''Prometheus is not accessible: '' @ error_message err))
                (\<lambda>_. return_io False))"

text \<open>\<^verbatim>\<open>xs.join(sep)\<close>\<close>

fun join :: "string \<Rightarrow> string list \<Rightarrow> string" where
  "join sep [] = []"
| "join sep [x] = x"
| "join sep (x # y # ys) = x @ sep @ join sep (y # ys)"

text \<open>
  The text of one result.  \<open>Object.keys\<close> lists the labels in insertion order;
  \<open>metric.__name__ || 'unknown'\<close> falls back on a missing or empty name.  \<open>with_time\<close>
  tells the enhanced script, which appends the time of the value, from the simple one.
\<close>

definition result_line :: "'p env \<Rightarrow> bool \<Rightarrow> nat \<Rightarrow> query_result \<Rightarrow> error + string" where
  "result_line e with_time index r =
     (case r of
        QueryResult metric t v \<Rightarrow>
          (let labels = join '', ''
                 (map (\<lambda>k. k @ [CHR ''='', CHR 0x22] @ (case map_of metric k of Some x \<Rightarrow> x | None \<Rightarrow> [])
                              @ [CHR 0x22])
                    (filter (\<lambda>k. k \<noteq> ''__name__'') (map fst metric)));
               metricName = (case map_of metric ''__name__'' of
                               Some n \<Rightarrow> if truthy n then n else ''unknown''
                             | None \<Rightarrow> ''unknown'');
               line = ''      '' @ show_nat (index + 1) @ ''. '' @ metricName
                      @ (if truthy labels then ''{'' @ labels @ ''}'' else []) @ '' = '' @ v
           in if with_time then
                (case iso_time e t of
                   Inl err \<Rightarrow> Inl err
                 | Inr timestamp \<Rightarrow> Inr (line @ '' @ '' @ timestamp))
              else Inr line))"

text \<open>\<^verbatim>\<open>data.data.result.forEach((result, index) => ...)\<close>\<close>

fun print_results :: "'p env \<Rightarrow> bool \<Rightarrow> nat \<Rightarrow> query_result list \<Rightarrow> (unit, 'p) io" where
  "print_results e with_time index [] = return_io ()"
| "print_results e with_time index (r # rs) =
     bind_io (of_result (result_line e with_time index r))
       (\<lambda>line. bind_io (console_log line)
          (\<lambda>_. print_results e with_time (index + 1) rs))"

text \<open>
  What \<open>queryPrometheus\<close> does with the data of a response.  Data that is not an object
  of the declared shape has no \<open>status\<close>; a response without \<open>data\<close> makes the read of
  \<open>data.data.result\<close> throw a \<open>TypeError\<close>.
\<close>

definition report :: "'p env \<Rightarrow> bool \<Rightarrow> body \<Rightarrow> (unit, 'p) io" where
  "report e with_time d =
     (case d of
        Text _ \<Rightarrow> console_log ''   Query failed: Unknown error''
      | Json (PrometheusResponse status dat err) \<Rightarrow>
          if status = ''success'' then
            bind_io (console_log (''   Status: '' @ status))
              (\<lambda>_. case dat of
                      None \<Rightarrow>
                        of_result (Inl (Error
                          ''Cannot read properties of undefined (reading 'result')''))
                    | Some None \<Rightarrow> console_log ''   No data found for this query''
                    | Some (Some result) \<Rightarrow>
                        if length result > 0 then
                          bind_io (console_log (''   Found '' @ show_nat (length result)
                                                @ '' result(s):''))
                            (\<lambda>_. print_results e with_time 0 result)
                        else console_log ''   No data found for this query'')
          else console_log (''   Query failed: ''
                 @ (case err of
                      Some m \<Rightarrow> if truthy m then m else ''Unknown error''
                    | None \<Rightarrow> ''Unknown error'')))"

text \<open>The \<open>catch\<close> block of \<open>queryPrometheus\<close>.\<close>

definition query_failed :: "error \<Rightarrow> (unit, 'p) io" where
  "query_failed err =
     bind_io (console_error (''   Error querying Prometheus: '' @ error_message err))
       (\<lambda>_. case err of
               AxiosError _ (Some (status, d)) \<Rightarrow>
                 bind_io (console_error (''      Status: '' @ show_nat status))
                   (\<lambda>_. console_error (''      Data: '' @ body_text d))
             | _ \<Rightarrow> return_io ())"

definition query_request :: "'p env \<Rightarrow> string \<Rightarrow> 'p call" where
  "query_request e query = Get (PROMETHEUS_URL e @ ''/api/v1/query'') [(''query'', query)] 10000"

text \<open>\<open>queryPrometheus(query, name)\<close> of the enhanced test script.\<close>

definition queryPrometheus :: "'p env \<Rightarrow> string \<Rightarrow> string \<Rightarrow> (unit, 'p) io" where
  "queryPrometheus e query name =
     try_catch
       (bind_io (console_log (''Querying: '' @ name))
          (\<lambda>_. bind_io (console_log (''   Query: '' @ query))
             (\<lambda>_. bind_io (axios e (query_request e query))
                (\<lambda>response. report e True (snd response)))))
       query_failed"

text \<open>\<open>queryPrometheus()\<close> of the simple test script: one fixed query, no times.\<close>

definition simple_queryPrometheus :: "'p env \<Rightarrow> (unit, 'p) io" where
  "simple_queryPrometheus e =
     try_catch
       (bind_io (console_log ''Querying: Demo Counter'')
          (\<lambda>_. bind_io (console_log ''   Query: demo_counter_total'')
             (\<lambda>_. bind_io (axios e (query_request e ''demo_counter_total''))
                (\<lambda>response. report e False (snd response)))))
       query_failed"

definition queries :: "(string \<times> string) list" where
  "queries =
     [(''demo_counter_total'', ''Demo Counter''),
      (''demo_gauge'', ''Demo Gauge''),
      (''http_requests_total'', ''HTTP Requests''),
      (''http_request_duration_seconds'', ''HTTP Request Duration''),
      (''custom_metric'', ''Custom Metric'')]"

text \<open>\<^verbatim>\<open>for (const queryInfo of queries) { await queryPrometheus(...); console.log(''); }\<close>\<close>

fun run_queries :: "'p env \<Rightarrow> (string \<times> string) list \<Rightarrow> (unit, 'p) io" where
  "run_queries e [] = return_io ()"
| "run_queries e (queryInfo # qs) =
     bind_io (queryPrometheus e (fst queryInfo) (snd queryInfo))
       (\<lambda>_. bind_io (console_log []) (\<lambda>_. run_queries e qs))"

fun log_all :: "string list \<Rightarrow> (unit, 'p) io" where
  "log_all [] = return_io ()"
| "log_all (s # ss) = bind_io (console_log s) (\<lambda>_. log_all ss)"

text \<open>
  \<open>main\<close> returns \<open>Some code\<close> when it called \<open>process.exit(code)\<close>, which ends the process
  there, and \<open>None\<close> when it ran to its end.  The two-second wait has no effect here.
\<close>

definition main :: "'p env \<Rightarrow> (nat option, 'p) io" where
  "main e =
     bind_io (log_all [''Enhanced Prometheus Remote Write Test'',
                       ''Prometheus URL: '' @ PROMETHEUS_URL e,
                       replicate 50 CHR ''=''])
       (\<lambda>_. bind_io (getPrometheusStatus e)
          (\<lambda>isHealthy.
             if \<not> isHealthy then
               bind_io (log_all [''\<newline>Make sure Prometheus is running and accessible.'',
                                 ''   You can start it with: docker-compose up -d''])
                 (\<lambda>_. return_io (Some 1))
             else
               bind_io (console_log ''\<newline>Generating and sending metrics...'')
                 (\<lambda>_. bind_io (simple_generateAndSendMetrics e)
                    (\<lambda>_. bind_io (log_all [''\<newline>Waiting for metrics to be processed...'',
                                            ''\<newline>Running queries...''])
                       (\<lambda>_. bind_io (run_queries e queries)
                          (\<lambda>_. bind_io (log_all [''Test completed!'', ''\<newline>Tips:'',
                                   ''   - Visit http://localhost:9090 for Prometheus UI'',
                                   ''   - Run this test again to see updated values'',
                                   ''   - Try queries like: demo_counter_total{service=\"demo-service\"}''])
                             (\<lambda>_. return_io None)))))))"

definition simple_main :: "'p env \<Rightarrow> (nat option, 'p) io" where
  "simple_main e =
     bind_io (log_all [''Simple Prometheus Remote Write Test'',
                       ''Prometheus URL: '' @ PROMETHEUS_URL e,
                       replicate 50 CHR ''=''])
       (\<lambda>_. bind_io (getPrometheusStatus e)
          (\<lambda>isHealthy.
             if \<not> isHealthy then
               bind_io (log_all [''\<newline>Make sure Prometheus is running and accessible.'',
                                 ''   You can start it with: docker-compose up -d''])
                 (\<lambda>_. return_io (Some 1))
             else
               bind_io (console_log ''\<newline>Generating and sending metrics...'')
                 (\<lambda>_. bind_io (simple_generateAndSendMetrics e)
                    (\<lambda>_. bind_io (log_all [''\<newline>Waiting for metrics to be processed...'',
                                            ''\<newline>Running query...''])
                       (\<lambda>_. bind_io (simple_queryPrometheus e)
                          (\<lambda>_. bind_io (log_all [''\<newline>Test completed!'', ''\<newline>Tips:'',
                                   ''   - Visit http://localhost:9090 for Prometheus UI'',
                                   ''   - Run this test again to see updated values''])
                             (\<lambda>_. return_io None)))))))"

text \<open>
  The process: \<^verbatim>\<open>main().catch((error) => { console.error(...); process.exit(1); })\<close>
  from an empty console.  A process whose \<open>main\<close> ran to its end exits with code 0.
\<close>

definition start :: "'p world" where
  "start = \<lparr>console = [], calls = []\<rparr>"

definition run :: "('p env \<Rightarrow> (nat option, 'p) io) \<Rightarrow> 'p env \<Rightarrow> nat \<times> 'p world" where
  "run script e =
     (case script e start of
        (Inr (Some code), w) \<Rightarrow> (code, w)
      | (Inr None, w) \<Rightarrow> (0, w)
      | (Inl err, w) \<Rightarrow> (1, w\<lparr>console := console w @ [Err ''Test failed:'']\<rparr>))"

section \<open>Outcomes of a send\<close>

text \<open>A response that \<open>axios\<close> resolves with.\<close>

fun succeeded :: "outcome \<Rightarrow> bool" where
  "succeeded (Response status d) = (200 \<le> status \<and> status < 300)"
| "succeeded (NoResponse msg) = False"

text \<open>The entries a computation added to the console.\<close>

definition printed :: "'p world \<Rightarrow> 'p world \<Rightarrow> log_entry list" where
  "printed w w' = drop (length (console w)) (console w')"

fun is_failure_entry :: "log_entry \<Rightarrow> bool" where
  "is_failure_entry (Err s) =
     (take (length ''Failed to send metrics to Prometheus: '') s
        = ''Failed to send metrics to Prometheus: '')"
| "is_failure_entry (Log s) = False"

definition failure_logged :: "'p world \<Rightarrow> 'p world \<Rightarrow> bool" where
  "failure_logged w w' = list_ex is_failure_entry (printed w w')"

text \<open>The calls a computation made.\<close>

definition called :: "'p world \<Rightarrow> 'p world \<Rightarrow> 'p call list" where
  "called w w' = drop (length (calls w)) (calls w')"

section \<open>The common shape of a query\<close>

text \<open>The shape shared by the query functions of both test scripts.\<close>

definition query_with :: "'p env \<Rightarrow> bool \<Rightarrow> string \<Rightarrow> string \<Rightarrow> (unit, 'p) io" where
  "query_with e t query name =
     try_catch
       (bind_io (console_log (''Querying: '' @ name))
          (\<lambda>_. bind_io (console_log (''   Query: '' @ query))
             (\<lambda>_. bind_io (axios e (query_request e query))
                (\<lambda>response. report e t (snd response)))))
       query_failed"


section \<open>Sample environments\<close>

text \<open>
  A server that answers every request with the given outcome and a push helper that
  always does the same, around a registry holding one counter.
\<close>

definition sample_env :: "outcome \<Rightarrow> push_outcome \<Rightarrow> (jsval, jsval) full_env" where
  "sample_env out pushed =
     \<lparr>env_PROMETHEUS_URL = None,
      http = (\<lambda>n req. out),
      helper = (\<lambda>n req answer. pushed),
      clock = ''2024-01-01T00:00:00.000Z'',
      num_text = (\<lambda>x. ''42''),
      iso_time = (\<lambda>t. Inr ''2024-01-01T00:00:00.000Z''),
      random = (0, 0, 0),
      serializer = id,
      compressor = id,
      register_metrics = ''# TYPE demo_counter_total counter\<newline>demo_counter_total{service=\"demo-service\"} 42\<newline>'',
      date_now = 1704067200000,
      gauge_text = ''23.50'',
      duration_text = ''1.25''\<rparr>"

text \<open>
  Environments for the test scripts: the network answers by the number of earlier calls.
  \<open>always\<close> gives every call the same outcome; \<open>healthy_then\<close> answers the first call,
  the health check, with status 200 and every later call with the given outcome.
\<close>

definition always :: "outcome \<Rightarrow> nat \<Rightarrow> outcome" where
  "always out n = out"

definition healthy_then :: "outcome \<Rightarrow> nat \<Rightarrow> outcome" where
  "healthy_then out n = (if n = 0 then Response 200 (Text ''Prometheus Server is Healthy.'') else out)"

definition answer_by_index :: "(nat \<Rightarrow> outcome) \<Rightarrow> nat \<Rightarrow> unit call \<Rightarrow> outcome" where
  "answer_by_index answers n req = answers n"

definition push_always ::
  "push_outcome \<Rightarrow> nat \<Rightarrow> unit call \<Rightarrow> outcome \<Rightarrow> push_outcome" where
  "push_always pushed n req answer = pushed"

definition fixed_text :: "jsnum \<Rightarrow> string" where
  "fixed_text x = ''42''"

definition fixed_time :: "jsnum \<Rightarrow> error + string" where
  "fixed_time t = Inr ''2024-01-01T00:00:00.000Z''"

definition scripted_env :: "(nat \<Rightarrow> outcome) \<Rightarrow> push_outcome \<Rightarrow> unit env" where
  "scripted_env answers pushed =
     \<lparr>env_PROMETHEUS_URL = None,
      http = answer_by_index answers,
      helper = push_always pushed,
      clock = ''2024-01-01T00:00:00.000Z'',
      num_text = fixed_text,
      iso_time = fixed_time,
      random = (0, 0, 0)\<rparr>"

text \<open>
  A push helper in the manner of \<open>fetch\<close>: it rejects when no response arrives and
  resolves on every response, whatever its status, which it reports in the value it
  resolves with.
\<close>

definition resolves_on_response :: "nat \<Rightarrow> 'p call \<Rightarrow> outcome \<Rightarrow> push_outcome" where
  "resolves_on_response n req answer =
     (case answer of
        Response status d \<Rightarrow> Resolved
      | NoResponse msg \<Rightarrow> Rejected (Error msg))"

definition fetch_env :: "(nat \<Rightarrow> outcome) \<Rightarrow> 'p env" where
  "fetch_env answers =
     \<lparr>env_PROMETHEUS_URL = None,
      http = (\<lambda>n req. answers n),
      helper = resolves_on_response,
      clock = ''2024-01-01T00:00:00.000Z'',
      num_text = fixed_text,
      iso_time = fixed_time,
      random = (0, 0, 0)\<rparr>"

section \<open>Properties of the verifier\<close>


lemma verify_each_None: "verify_each f pre xs = None \<longleftrightarrow> list_all (\<lambda>x. f x = None) xs"
  by (induction xs) (auto split: option.splits)

lemma Label_verify_ok: "Label_verify m = None \<longleftrightarrow> Label_ok m"
  by (auto simp: Label_verify_def Label_ok_def field_ok_def)

lemma Sample_verify_ok: "Sample_verify m = None \<longleftrightarrow> Sample_ok m"
  by (auto simp: Sample_verify_def Sample_ok_def field_ok_def)

lemma verify_repeated_None:
  assumes "\<And>x. f x = None \<longleftrightarrow> P x"
  shows "verify_repeated f m field = None \<longleftrightarrow> field_ok m field (array_of P)"
  using assms
  by (auto simp: verify_repeated_def field_ok_def verify_each_None split: jsval.splits)

lemma TimeSeries_verify_ok: "TimeSeries_verify m = None \<longleftrightarrow> TimeSeries_ok m"
proof -
  have l: "verify_repeated Label_verify m ''labels'' = None \<longleftrightarrow> field_ok m ''labels'' (array_of Label_ok)"
    by (rule verify_repeated_None) (rule Label_verify_ok)
  have s: "verify_repeated Sample_verify m ''samples'' = None \<longleftrightarrow> field_ok m ''samples'' (array_of Sample_ok)"
    by (rule verify_repeated_None) (rule Sample_verify_ok)
  show ?thesis
  proof (cases "verify_repeated Label_verify m ''labels''")
    case None
    with l s show ?thesis by (simp add: TimeSeries_verify_def TimeSeries_ok_def)
  next
    case (Some e)
    with l show ?thesis by (simp add: TimeSeries_verify_def TimeSeries_ok_def)
  qed
qed

lemma WriteRequest_verify_ok: 
  "WriteRequest_verify (WriteRequest tss) = None \<longleftrightarrow> list_all TimeSeries_ok tss"
proof -
  have "verify_repeated TimeSeries_verify (WriteRequest tss) ''timeseries'' = None
        \<longleftrightarrow> field_ok (WriteRequest tss) ''timeseries'' (array_of TimeSeries_ok)"
    by (rule verify_repeated_None) (rule TimeSeries_verify_ok)
  then show ?thesis
    by (simp add: WriteRequest_verify_def WriteRequest_def field_ok_def present_def)
qed

lemma Label_is_ok: "Label_ok (Label n v)"
  by (simp add: Label_ok_def Label_def field_ok_def)

lemma Sample_is_ok: "Sample_ok (Sample x t)"
  by (simp add: Sample_ok_def Sample_def field_ok_def)

lemma TimeSeries_is_ok:
  "TimeSeries_ok (TimeSeries ls ss) \<longleftrightarrow> list_all Label_ok ls \<and> list_all Sample_ok ss"
  by (simp add: TimeSeries_ok_def TimeSeries_def field_ok_def present_def)

lemma scrape_loop_append:
  "scrape_loop t ls acc = acc @ concat (map (scrape_line t) ls)"
  by (induction ls arbitrary: acc) simp_all

declare scan_pairs.simps [simp del]
declare match_all.simps [simp del]

lemma not_word_eq: "\<not> is_word CHR ''=''"
  by (simp add: is_word_def)

lemma takeWhile_run:
  "\<forall>x\<in>set xs. P x \<Longrightarrow> ys = [] \<or> \<not> P (hd ys) \<Longrightarrow> takeWhile P (xs @ ys) = xs"
  by (cases ys) (simp_all add: takeWhile_tail)

lemma dropWhile_run:
  "\<forall>x\<in>set xs. P x \<Longrightarrow> ys = [] \<or> \<not> P (hd ys) \<Longrightarrow> dropWhile P (xs @ ys) = ys"
  by (cases ys) (simp_all add: dropWhile_append2)

lemma match_label_at_matched_text:
  assumes "n \<noteq> []" "\<forall>c\<in>set n. is_word c" "CHR 0x22 \<notin> set v"
  shows "match_label_at (matched_text n v @ rest) = Some (n, v, rest)"
proof -
  let ?tail = "[CHR ''='', CHR 0x22] @ v @ [CHR 0x22] @ rest"
  have tw: "takeWhile is_word (n @ ?tail) = n"
    using assms(2) by (intro takeWhile_run) (simp_all add: not_word_eq)
  have dw: "dropWhile is_word (n @ ?tail) = ?tail"
    using assms(2) by (intro dropWhile_run) (simp_all add: not_word_eq)
  have tv: "takeWhile (\<lambda>x. x \<noteq> CHR 0x22) (v @ [CHR 0x22] @ rest) = v"
    using assms(3) by (intro takeWhile_run) auto
  have dv: "dropWhile (\<lambda>x. x \<noteq> CHR 0x22) (v @ [CHR 0x22] @ rest) = [CHR 0x22] @ rest"
    using assms(3) by (intro dropWhile_run) auto
  have "matched_text n v @ rest = n @ ?tail" by (simp add: matched_text_def)
  then show ?thesis
    using tw dw tv dv assms(1) by (simp add: match_label_at_def)
qed

lemma match_label_at_shape:
  assumes "match_label_at s = Some (n, v, rest)"
  shows "n \<noteq> [] \<and> (\<forall>c\<in>set n. is_word c) \<and> CHR 0x22 \<notin> set v \<and> s = matched_text n v @ rest"
proof -
  from assms have n: "n = takeWhile is_word s" "n \<noteq> []"
    by (auto simp: match_label_at_def Let_def split: if_splits list.splits)
  from assms obtain r where d: "dropWhile is_word s = CHR ''='' # CHR 0x22 # r"
    by (auto simp: match_label_at_def Let_def split: if_splits list.splits)
  from assms d have v: "v = takeWhile (\<lambda>x. x \<noteq> CHR 0x22) r"
    and r: "\<exists>x. dropWhile (\<lambda>x. x \<noteq> CHR 0x22) r = x # rest"
    by (auto simp: match_label_at_def Let_def split: if_splits list.splits)
  from r obtain x where x: "dropWhile (\<lambda>x. x \<noteq> CHR 0x22) r = x # rest" by blast
  then have "x = CHR 0x22" by (metis (mono_tags, lifting) hd_dropWhile list.sel(1) list.distinct(1))
  with x v have rr: "r = v @ CHR 0x22 # rest" by (metis takeWhile_dropWhile_id)
  have "s = takeWhile is_word s @ dropWhile is_word s" by simp
  with n d rr have "s = matched_text n v @ rest" by (simp add: matched_text_def)
  moreover have "\<forall>c\<in>set n. is_word c" using n(1) by (auto dest: set_takeWhileD)
  moreover have "CHR 0x22 \<notin> set v" using v by (auto dest: set_takeWhileD)
  ultimately show ?thesis using n(2) by simp
qed

lemma find_label_shape:
  "find_label s = Some (n, v, rest) \<Longrightarrow>
     n \<noteq> [] \<and> (\<forall>c\<in>set n. is_word c) \<and> CHR 0x22 \<notin> set v"
proof (induction s)
  case Nil
  then show ?case by simp
next
  case (Cons c cs)
  show ?case
  proof (cases "match_label_at (c # cs)")
    case None
    with Cons show ?thesis by simp
  next
    case (Some m)
    with Cons.prems have "match_label_at (c # cs) = Some (n, v, rest)" by simp
    then show ?thesis using match_label_at_shape by blast
  qed
qed

lemma find_label_rematch:
  assumes "find_label s = Some (n, v, rest)"
  shows "find_label (matched_text n v) = Some (n, v, [])"
proof -
  from find_label_shape[OF assms]
  have sh: "n \<noteq> []" "\<forall>c\<in>set n. is_word c" "CHR 0x22 \<notin> set v" by simp_all
  have m: "match_label_at (matched_text n v) = Some (n, v, [])"
    using match_label_at_matched_text[OF sh, of "[]"] by simp
  from sh(1) obtain c cs where "matched_text n v = c # cs"
    by (cases n) (simp_all add: matched_text_def)
  with m show ?thesis by simp
qed

lemma push_labels_match_all:
  "push_labels (match_all s) labels = labels @ kept_labels s"
proof (induction s arbitrary: labels rule: scan_pairs.induct)
  case (1 s)
  show ?case
  proof (cases "find_label s")
    case None
    then show ?thesis
      by (simp add: match_all.simps[of s] scan_pairs.simps[of s] kept_labels_def)
  next
    case (Some m)
    obtain n v rest where m: "m = (n, v, rest)" by (cases m) auto
    with Some have f: "find_label s = Some (n, v, rest)" by simp
    have rem: "find_label (matched_text n v) = Some (n, v, [])"
      by (rule find_label_rematch[OF f])
    have n: "n \<noteq> []" using find_label_shape[OF f] by simp
    have IH: "\<And>labels. push_labels (match_all rest) labels = labels @ kept_labels rest"
      using 1[OF f] by simp
    show ?thesis
      using f rem n IH
      by (simp add: match_all.simps[of s] scan_pairs.simps[of s] kept_labels_def truthy_def
            label_of_def has_value_def)
  qed
qed

section \<open>The scraper and the encode step\<close>

lemma scrape_line_cases:
  "scrape_line t line =
     (case match_line line of
        None \<Rightarrow> []
      | Some (name, labelsStr, value) \<Rightarrow>
          [TimeSeries (Label ''__name__'' name
                        # (case labelsStr of None \<Rightarrow> [] | Some str \<Rightarrow> kept_labels str))
                      [Sample (parseFloat value) t]])"
proof (cases "match_line line")
  case None
  then show ?thesis by (simp add: scrape_line_def)
next
  case (Some m)
  obtain name labelsStr "value" where m: "m = (name, labelsStr, value)" by (cases m) auto
  from Some m have nv: "name \<noteq> []" "value \<noteq> []"
    by (auto simp: match_line_def Let_def split: prod.splits if_splits)
  have blk: "labelsStr = Some str \<Longrightarrow> str \<noteq> []" for str
    using Some m
    by (auto simp: match_line_def match_block_def Let_def split: prod.splits if_splits list.splits)
  show ?thesis
    using Some m nv blk
    by (cases labelsStr) (simp_all add: scrape_line_def truthy_def push_labels_match_all)
qed

lemma scrape_line_shape:
  assumes "ts \<in> set (scrape_line t line)"
  shows "\<exists>name more v. ts = TimeSeries (Label ''__name__'' name # map label_of more) [Sample v t]"
proof (cases "match_line line")
  case None
  with assms show ?thesis by (simp add: scrape_line_cases)
next
  case (Some m)
  obtain name labelsStr "value" where m: "m = (name, labelsStr, value)" by (cases m) auto
  show ?thesis
  proof (cases labelsStr)
    case None
    with assms Some m have "ts = TimeSeries (Label ''__name__'' name # map label_of []) [Sample (parseFloat value) t]"
      by (simp add: scrape_line_cases)
    then show ?thesis by blast
  next
    case (Some str)
    with assms \<open>match_line line = Some m\<close> m
    have "ts = TimeSeries (Label ''__name__'' name # map label_of (filter has_value (scan_pairs str)))
                 [Sample (parseFloat value) t]"
      by (simp add: scrape_line_cases kept_labels_def)
    then show ?thesis by blast
  qed
qed

lemma scrape_eq: "scrape t metrics = concat (map (scrape_line t) (filter keep_line (split_nl metrics)))"
  by (simp add: scrape_def scrape_loop_append)

lemma scrape_shape:
  assumes "ts \<in> set (scrape t metrics)"
  shows "\<exists>name more v. ts = TimeSeries (Label ''__name__'' name # map label_of more) [Sample v t]"
proof -
  from assms obtain line where "ts \<in> set (scrape_line t line)"
    by (auto simp: scrape_eq)
  then show ?thesis by (rule scrape_line_shape)
qed

lemma label_of_ok: "Label_ok (label_of p)"
  by (simp add: label_of_def Label_is_ok)

lemma scrape_ok: "list_all TimeSeries_ok (scrape t metrics)"
proof -
  have "TimeSeries_ok ts" if "ts \<in> set (scrape t metrics)" for ts
  proof -
    from scrape_shape[OF that] obtain name more v
      where "ts = TimeSeries (Label ''__name__'' name # map label_of more) [Sample v t]" by blast
    then show ?thesis
      by (simp add: TimeSeries_is_ok Label_is_ok Sample_is_ok list_all_iff label_of_ok)
  qed
  then show ?thesis by (simp add: list_all_iff)
qed

lemma metricsToRemoteWrite_returns:
  "metricsToRemoteWrite encode compress metrics timestamp
     = Inr (compress (encode (WriteRequest (scrape timestamp metrics))))"
proof -
  have "WriteRequest_verify (WriteRequest (scrape timestamp metrics)) = None"
    by (simp add: WriteRequest_verify_ok scrape_ok)
  then show ?thesis
    by (simp add: metricsToRemoteWrite_def encode_request_def Let_def)
qed

text \<open>
  Claim C10.  Whatever the exposition text, the write request the scraper assembles passes
  the schema validation, so \<open>metricsToRemoteWrite\<close> never takes its throwing branch and
  returns the compressed serialization.  Each produced series has a label list that begins
  with \<open>__name__\<close>, string label names and values, and exactly one sample, a number with
  the integer capture time as its timestamp.
\<close>

theorem scraped_request_passes_validation:
  "WriteRequest_verify (WriteRequest (scrape timestamp metrics)) = None
   \<and> metricsToRemoteWrite encode compress metrics timestamp
       = Inr (compress (encode (WriteRequest (scrape timestamp metrics))))
   \<and> (\<forall>ts\<in>set (scrape timestamp metrics).
        \<exists>name more v. ts = TimeSeries (Label ''__name__'' name # map label_of more)
                                     [Sample v timestamp])"
proof -
  have v: "WriteRequest_verify (WriteRequest (scrape timestamp metrics)) = None"
    by (simp add: WriteRequest_verify_ok scrape_ok)
  then have "metricsToRemoteWrite encode compress metrics timestamp
       = Inr (compress (encode (WriteRequest (scrape timestamp metrics))))"
    by (simp add: metricsToRemoteWrite_def encode_request_def)
  with v show ?thesis using scrape_shape by blast
qed

lemma scenario_scrape:
  \<open>scrape 17 ''# HELP demo_counter_total A demo counter\<newline>demo_counter_total{service="demo-service"} 42\<newline>''
     = [TimeSeries [Label ''__name__'' ''demo_counter_total'', Label ''service'' ''demo-service'']
                   [Sample (Num 42) 17]]\<close>
  by code_simp

theorem scraped_request_passes_validation_witness:
  \<open>TimeSeries [Label ''__name__'' ''demo_counter_total'', Label ''service'' ''demo-service'']
               [Sample (Num 42) 17]
     \<in> set (scrape 17 ''# HELP demo_counter_total A demo counter\<newline>demo_counter_total{service="demo-service"} 42\<newline>'')
   \<and> (\<exists>name more v.
         TimeSeries [Label ''__name__'' ''demo_counter_total'', Label ''service'' ''demo-service'']
                    [Sample (Num 42) 17]
           = TimeSeries (Label ''__name__'' name # map label_of more) [Sample v 17])
   \<and> (metricsToRemoteWrite id id
         ''# HELP demo_counter_total A demo counter\<newline>demo_counter_total{service="demo-service"} 42\<newline>'' 17
        = Inr (WriteRequest
                [TimeSeries [Label ''__name__'' ''demo_counter_total'', Label ''service'' ''demo-service'']
                            [Sample (Num 42) 17]]))\<close>
  using scraped_request_passes_validation
          [of 17 \<open>''# HELP demo_counter_total A demo counter\<newline>demo_counter_total{service="demo-service"} 42\<newline>''\<close> id id]
  by (simp add: scenario_scrape)




section \<open>Lines that follow the grammar\<close>

lemma space_not_word: "is_space c \<Longrightarrow> \<not> is_word c"
  by (auto simp: is_space_def is_word_def)

lemma digit_dot_not_space: "is_digit_dot c \<Longrightarrow> \<not> is_space c"
  by (auto simp: is_space_def is_digit_dot_def is_digit_def)

lemma not_word_brace: "\<not> is_word CHR ''{''"
  by (simp add: is_word_def)

lemma not_space_brace: "\<not> is_space CHR ''{''"
  by (simp add: is_space_def)

lemma match_block_none:
  "s = [] \<or> hd s \<noteq> CHR ''{'' \<Longrightarrow> match_block s = (None, s)"
  by (cases s) (simp_all add: match_block_def)

lemma match_block_some:
  assumes "CHR ''}'' \<notin> set body"
  shows "match_block (CHR ''{'' # body @ ''}'' @ rest) = (Some (CHR ''{'' # body @ ''}''), rest)"
proof -
  have t: "takeWhile (\<lambda>x. x \<noteq> CHR ''}'') (body @ ''}'' @ rest) = body"
    using assms by (intro takeWhile_run) auto
  have d: "dropWhile (\<lambda>x. x \<noteq> CHR ''}'') (body @ ''}'' @ rest) = ''}'' @ rest"
    using assms by (intro dropWhile_run) auto
  show ?thesis using t d by (simp add: match_block_def)
qed

text \<open>The line pattern on a text that starts as the grammar says.\<close>

lemma match_line_parts:
  assumes name: "name \<noteq> []" "\<forall>c\<in>set name. is_word c"
    and block: "block = [] \<or> (\<exists>body. block = CHR ''{'' # body @ ''}'' \<and> CHR ''}'' \<notin> set body)"
    and ws: "ws \<noteq> []" "\<forall>c\<in>set ws. is_space c"
    and tail: "tail = [] \<or> \<not> is_space (hd tail)"
  shows "match_line (name @ block @ ws @ tail) =
           (if takeWhile is_digit_dot tail = [] then None
            else Some (name, if block = [] then None else Some block,
                       takeWhile is_digit_dot tail))"
proof -
  let ?after = "block @ ws @ tail"
  from ws obtain w ws' where w: "ws = w # ws'" "is_space w" by (cases ws) auto
  have hd_after: "?after \<noteq> [] \<and> \<not> is_word (hd ?after)"
    using block w by (auto simp: not_word_brace space_not_word)
  have tn: "takeWhile is_word (name @ ?after) = name"
    using name(2) hd_after by (intro takeWhile_run) simp_all
  have dn: "dropWhile is_word (name @ ?after) = ?after"
    using name(2) hd_after by (intro dropWhile_run) simp_all
  have mb: "match_block ?after = (if block = [] then None else Some block, ws @ tail)"
  proof (cases "block = []")
    case True
    have "w \<noteq> CHR ''{''" using w(2) not_space_brace by blast
    then have "match_block (w # ws' @ tail) = (None, w # ws' @ tail)"
      by (intro match_block_none) simp
    with True w(1) show ?thesis by simp
  next
    case False
    with block obtain body where b: "block = CHR ''{'' # body @ ''}''" "CHR ''}'' \<notin> set body"
      by blast
    then show ?thesis using match_block_some[OF b(2), of "ws @ tail"] by simp
  qed
  have tw: "takeWhile is_space (ws @ tail) = ws"
    using ws(2) tail by (intro takeWhile_run) simp_all
  have dw: "dropWhile is_space (ws @ tail) = tail"
    using ws(2) tail by (intro dropWhile_run) simp_all
  show ?thesis
    using tn dn mb tw dw name(1) ws(1)
    by (simp add: match_line_def del: append_assoc)
qed

lemma keep_line_word:
  assumes "line = c # r" "is_word c"
  shows "keep_line line"
proof -
  have "\<not> is_space c" using assms(2) space_not_word by blast
  moreover have "c \<noteq> CHR ''#''" using assms(2) by (auto simp: is_word_def)
  ultimately show ?thesis using assms(1) by (simp add: keep_line_def truthy_def)
qed

lemma match_line_keep:
  assumes "match_line line \<noteq> None"
  shows "keep_line line"
proof -
  from assms have "takeWhile is_word line \<noteq> []"
    by (auto simp: match_line_def Let_def split: prod.splits if_splits)
  then obtain c r where "line = c # r" "is_word c"
    by (cases line) (auto split: if_splits)
  then show ?thesis by (rule keep_line_word)
qed

lemma scrape_split:
  assumes "split_nl metrics = pre @ line # post"
  shows "scrape t metrics =
           scrape_loop t (filter keep_line pre) [] @ scrape_line t line
             @ scrape_loop t (filter keep_line post) []"
proof -
  have "scrape_line t line = []" if "\<not> keep_line line"
    using that match_line_keep[of line] by (cases "match_line line") (auto simp: scrape_line_cases)
  then show ?thesis
    using assms by (simp add: scrape_eq scrape_loop_append)
qed

text \<open>
  Claim C3, as stated, fails.  The block of the line pattern ends at the first closing
  brace and the name holds word characters only.  A line whose label value holds a closing
  brace is dropped, or scraped with a wrong value when digits follow that brace, and a
  line whose metric name holds a colon is dropped.
\<close>

theorem brace_in_label_value_unmatched:
  \<open>scrape 0 ''up{path="/api/{id}",job="api"} 1'' = []
   \<and> scrape 0 ''m{x="} 5 "} 7'' = [TimeSeries [Label ''__name__'' ''m''] [Sample (Num 5) 0]]
   \<and> scrape 0 ''job:rate 1'' = []\<close>
  by code_simp

text \<open>
  Claim C3, amended.  A line of the exposition text made of a metric name of word
  characters, an optional label block in braces that holds no closing brace before its
  end, white space and a value of digits and dots contributes exactly one series: its
  first label is \<open>__name__\<close> with the metric name, and it carries one sample, whose value
  is \<open>parseFloat\<close> of the value text and whose timestamp is the capture time that every
  series of the scrape carries.
\<close>

theorem grammar_line_yields_one_series:
  assumes split: "split_nl metrics = pre @ line # post"
    and line: "line = name @ block @ ws @ value"
    and name: "name \<noteq> []" "\<forall>c\<in>set name. is_word c"
    and block: "block = [] \<or> (\<exists>body. block = CHR ''{'' # body @ ''}'' \<and> CHR ''}'' \<notin> set body)"
    and ws: "ws \<noteq> []" "\<forall>c\<in>set ws. is_space c"
    and val: "value \<noteq> []" "\<forall>c\<in>set value. is_digit_dot c"
  shows "scrape timestamp metrics =
           scrape_loop timestamp (filter keep_line pre) []
           @ [TimeSeries (Label ''__name__'' name # (if block = [] then [] else kept_labels block))
                         [Sample (parseFloat value) timestamp]]
           @ scrape_loop timestamp (filter keep_line post) []
         \<and> (\<forall>ts\<in>set (scrape timestamp metrics).
               \<exists>labels v. ts = TimeSeries labels [Sample v timestamp])"
proof -
  have tl: "value = [] \<or> \<not> is_space (hd value)"
    using val by (cases "value") (auto simp: digit_dot_not_space)
  have tv: "takeWhile is_digit_dot value = value"
    using val(2) by (simp add: takeWhile_eq_all_conv)
  have "match_line line = Some (name, if block = [] then None else Some block, value)"
    using match_line_parts[OF name block ws tl] tv val(1) line by simp
  then have "scrape_line timestamp line =
      [TimeSeries (Label ''__name__'' name # (if block = [] then [] else kept_labels block))
                  [Sample (parseFloat value) timestamp]]"
    by (simp add: scrape_line_cases)
  with scrape_split[OF split, of timestamp]
  have one: "scrape timestamp metrics =
           scrape_loop timestamp (filter keep_line pre) []
           @ [TimeSeries (Label ''__name__'' name # (if block = [] then [] else kept_labels block))
                         [Sample (parseFloat value) timestamp]]
           @ scrape_loop timestamp (filter keep_line post) []"
    by simp
  have "\<exists>labels v. ts = TimeSeries labels [Sample v timestamp]"
    if "ts \<in> set (scrape timestamp metrics)" for ts
    using scrape_shape[OF that] by blast
  with one show ?thesis by blast
qed

theorem grammar_line_yields_one_series_witness:
  \<open>split_nl ''# HELP demo_counter_total A demo counter\<newline>demo_counter_total{service="demo-service"} 42''
     = [''# HELP demo_counter_total A demo counter''] @ ''demo_counter_total{service="demo-service"} 42'' # []
   \<and> ''demo_counter_total{service="demo-service"} 42''
       = ''demo_counter_total'' @ ''{service="demo-service"}'' @ '' '' @ ''42''
   \<and> list_all is_word ''demo_counter_total''
   \<and> CHR ''}'' \<notin> set ''service="demo-service"''
   \<and> list_all is_space '' ''
   \<and> list_all is_digit_dot ''42''
   \<and> scrape 1700000000000
        ''# HELP demo_counter_total A demo counter\<newline>demo_counter_total{service="demo-service"} 42''
      = [TimeSeries [Label ''__name__'' ''demo_counter_total'', Label ''service'' ''demo-service'']
                    [Sample (Num 42) 1700000000000]]\<close>
proof -
  have s: \<open>split_nl ''# HELP demo_counter_total A demo counter\<newline>demo_counter_total{service="demo-service"} 42''
     = [''# HELP demo_counter_total A demo counter''] @ ''demo_counter_total{service="demo-service"} 42'' # []\<close>
    by simp
  have l: \<open>''demo_counter_total{service="demo-service"} 42''
       = ''demo_counter_total'' @ ''{service="demo-service"}'' @ '' '' @ ''42''\<close>
    by simp
  have n: "\<forall>c\<in>set ''demo_counter_total''. is_word c" by (simp add: is_word_def)
  have b: \<open>''{service="demo-service"}'' = [] \<or> (\<exists>body. ''{service="demo-service"}'' = CHR ''{'' # body @ ''}''
            \<and> CHR ''}'' \<notin> set body)\<close>
    by simp
  have b': \<open>CHR ''}'' \<notin> set ''service="demo-service"''\<close> by simp
  have w: "\<forall>c\<in>set '' ''. is_space c" by (simp add: is_space_def)
  have v: "\<forall>c\<in>set ''42''. is_digit_dot c" by (simp add: is_digit_dot_def is_digit_def)
  have k: \<open>kept_labels ''{service="demo-service"}'' = [Label ''service'' ''demo-service'']\<close>
    by code_simp
  have p: "parseFloat ''42'' = Num 42" by code_simp
  have e: "scrape_loop 1700000000000 (filter keep_line [''# HELP demo_counter_total A demo counter'']) [] = []"
    by (simp add: keep_line_def)
  show ?thesis
    using grammar_line_yields_one_series[OF s l _ n b _ w _ v, of 1700000000000] s n b' w v k p e
    by (simp add: list_all_iff)
qed

section \<open>The labels of a block\<close>

text \<open>
  Claim C4, as stated, fails: the pattern scrapes the pair \<open>a\<close>, empty value, from the
  block of this matched line, and the produced series holds the \<open>__name__\<close> label only.
\<close>

theorem empty_valued_label_dropped:
  \<open>match_line ''m{a=""} 1'' = Some (''m'', Some ''{a=""}'', ''1'')
   \<and> scan_pairs ''{a=""}'' = [(''a'', '''')]
   \<and> scrape_line 0 ''m{a=""} 1'' = [TimeSeries [Label ''__name__'' ''m''] [Sample (Num 1) 0]]\<close>
  by code_simp

text \<open>
  Claim C4, amended.  For every matched line with a label block, every label pair scraped
  from the block whose value is not the empty string appears in the produced series after
  the synthesized \<open>__name__\<close> label, in the order encountered, and nothing else does; a
  scraped pair with an empty value is left out.
\<close>

theorem labels_with_value_kept:
  assumes "match_line line = Some (name, Some block, value)"
  shows "scrape_line timestamp line =
           [TimeSeries (Label ''__name__'' name # map label_of (filter has_value (scan_pairs block)))
                       [Sample (parseFloat value) timestamp]]"
  using assms by (simp add: scrape_line_cases kept_labels_def)

theorem labels_with_value_kept_witness:
  \<open>match_line ''up{job="api",zone="",env="dev"} 1''
     = Some (''up'', Some ''{job="api",zone="",env="dev"}'', ''1'')
   \<and> scan_pairs ''{job="api",zone="",env="dev"}''
       = [(''job'', ''api''), (''zone'', ''''), (''env'', ''dev'')]
   \<and> scrape_line 5 ''up{job="api",zone="",env="dev"} 1''
       = [TimeSeries [Label ''__name__'' ''up'', Label ''job'' ''api'', Label ''env'' ''dev'']
                     [Sample (Num 1) 5]]\<close>
proof -
  have m: \<open>match_line ''up{job="api",zone="",env="dev"} 1''
     = Some (''up'', Some ''{job="api",zone="",env="dev"}'', ''1'')\<close>
    by code_simp
  have s: \<open>scan_pairs ''{job="api",zone="",env="dev"}''
       = [(''job'', ''api''), (''zone'', ''''), (''env'', ''dev'')]\<close>
    by code_simp
  have p: "parseFloat ''1'' = Num 1" by code_simp
  show ?thesis
    using labels_with_value_kept[OF m, of 5] m s p
    by (simp add: label_of_def has_value_def)
qed

text \<open>
  The scraped pairs of a block written in the exposition format are the pairs written,
  whatever the values, as long as no value holds a double quote.
\<close>

lemma find_label_skip:
  "\<not> is_word c \<Longrightarrow> find_label (c # s) = find_label s"
  by (simp add: match_label_at_def)

lemma find_label_matched_text:
  assumes "n \<noteq> []" "\<forall>c\<in>set n. is_word c" "CHR 0x22 \<notin> set v"
  shows "find_label (matched_text n v @ rest) = Some (n, v, rest)"
proof -
  from assms(1) obtain c cs where "matched_text n v @ rest = c # cs"
    by (cases n) (simp_all add: matched_text_def)
  with match_label_at_matched_text[OF assms, of rest] show ?thesis by simp
qed

lemma scan_pairs_Some:
  "find_label s = Some (n, v, rest) \<Longrightarrow> scan_pairs s = (n, v) # scan_pairs rest"
  by (simp add: scan_pairs.simps[of s])

lemma scan_pairs_None: "find_label s = None \<Longrightarrow> scan_pairs s = []"
  by (simp add: scan_pairs.simps[of s])

lemma scan_pairs_cong:
  assumes "find_label s = find_label s'"
  shows "scan_pairs s = scan_pairs s'"
proof -
  have "scan_pairs s = (case find_label s of None \<Rightarrow> [] | Some (n, v, rest) \<Rightarrow> (n, v) # scan_pairs rest)"
    by (rule scan_pairs.simps)
  also have "\<dots> = (case find_label s' of None \<Rightarrow> [] | Some (n, v, rest) \<Rightarrow> (n, v) # scan_pairs rest)"
    by (simp only: assms)
  also have "\<dots> = scan_pairs s'"
    by (rule scan_pairs.simps[symmetric])
  finally show ?thesis .
qed

lemma scan_pairs_rendered_tail:
  assumes "\<forall>p\<in>set ps. fst p \<noteq> [] \<and> (\<forall>c\<in>set (fst p). is_word c) \<and> CHR 0x22 \<notin> set (snd p)"
  shows "scan_pairs (render_pairs ps @ ''}'') = ps"
  using assms
proof (induction ps rule: render_pairs.induct)
  case 1
  have "find_label ''}'' = None" by (simp add: match_label_at_def is_word_def)
  then show ?case by (simp add: scan_pairs_None)
next
  case (2 p)
  then have f: "find_label (matched_text (fst p) (snd p) @ ''}'') = Some (fst p, snd p, ''}'')"
    by (intro find_label_matched_text) simp_all
  have "find_label ''}'' = None" by (simp add: match_label_at_def is_word_def)
  then have "scan_pairs ''}'' = []" by (rule scan_pairs_None)
  with scan_pairs_Some[OF f] show ?case by simp
next
  case (3 p q ps)
  let ?rest = "'','' @ render_pairs (q # ps) @ ''}''"
  from 3 have f: "find_label (matched_text (fst p) (snd p) @ ?rest) = Some (fst p, snd p, ?rest)"
    by (intro find_label_matched_text) simp_all
  have "\<not> is_word CHR '',''" by (simp add: is_word_def)
  then have "find_label ?rest = find_label (render_pairs (q # ps) @ ''}'')"
    using find_label_skip[of "CHR '',''" "render_pairs (q # ps) @ ''}''"] by simp
  then have "scan_pairs ?rest = scan_pairs (render_pairs (q # ps) @ ''}'')"
    by (rule scan_pairs_cong)
  also have "\<dots> = q # ps" using 3 by simp
  finally have r: "scan_pairs ?rest = q # ps" .
  have "render_pairs (p # q # ps) @ ''}'' = matched_text (fst p) (snd p) @ ?rest" by simp
  with scan_pairs_Some[OF f] r show ?case by simp
qed

lemma scan_pairs_rendered:
  assumes "\<forall>p\<in>set ps. fst p \<noteq> [] \<and> (\<forall>c\<in>set (fst p). is_word c) \<and> CHR 0x22 \<notin> set (snd p)"
  shows "scan_pairs (render_block ps) = ps"
proof -
  have "find_label (render_block ps) = find_label (render_pairs ps @ ''}'')"
    using find_label_skip[of "CHR ''{''" "render_pairs ps @ ''}''"] not_word_brace
    by (simp add: render_block_def)
  then have "scan_pairs (render_block ps) = scan_pairs (render_pairs ps @ ''}'')"
    by (rule scan_pairs_cong)
  with scan_pairs_rendered_tail[OF assms] show ?thesis by simp
qed

section \<open>Lines that the pattern does not match\<close>

text \<open>
  Claim C5, as stated, fails for exponent notation: the pattern is not anchored at the
  end of the line, so it matches the digits before the exponent and the line yields a
  series with that prefix as its value.
\<close>

theorem exponent_line_not_skipped:
  "scrape 0 ''demo_gauge 1e5'' = [TimeSeries [Label ''__name__'' ''demo_gauge''] [Sample (Num 1) 0]]"
  by code_simp

lemma match_line_not_word:
  "line = [] \<or> \<not> is_word (hd line) \<Longrightarrow> match_line line = None"
  by (cases line) (simp_all add: match_line_def Let_def split: prod.splits)

lemma comment_unmatched: "match_line (CHR ''#'' # r) = None"
  by (intro match_line_not_word) (simp add: is_word_def)

lemma blank_unmatched:
  assumes "\<forall>c\<in>set line. is_space c"
  shows "match_line line = None"
proof (cases line)
  case Nil
  then show ?thesis by (simp add: match_line_not_word)
next
  case (Cons c r)
  with assms have "\<not> is_word c" by (simp add: space_not_word)
  with Cons show ?thesis by (simp add: match_line_not_word)
qed

lemma negative_unmatched:
  assumes "name \<noteq> []" "\<forall>c\<in>set name. is_word c"
    and "block = [] \<or> (\<exists>body. block = CHR ''{'' # body @ ''}'' \<and> CHR ''}'' \<notin> set body)"
    and "ws \<noteq> []" "\<forall>c\<in>set ws. is_space c"
  shows "match_line (name @ block @ ws @ CHR ''-'' # r) = None"
proof -
  have t: "CHR ''-'' # r = [] \<or> \<not> is_space (hd (CHR ''-'' # r))"
    by (simp add: is_space_def)
  have "takeWhile is_digit_dot (CHR ''-'' # r) = []"
    by (simp add: is_digit_dot_def is_digit_def)
  with match_line_parts[OF assms t] show ?thesis by simp
qed

text \<open>
  Claim C5, amended.  A line that the line pattern does not match yields no series and
  raises no error, and the lines before and after it are processed as if it were absent.
  Such lines include every comment line beginning with \<open>#\<close>, every blank line, and every
  line made of a metric name of word characters, an optional label block that holds no
  closing brace before its end, white space and then a minus sign.
\<close>

theorem unmatched_line_skipped:
  assumes split: "split_nl metrics = pre @ line # post"
    and line: "(\<exists>r. line = CHR ''#'' # r)
       \<or> (\<forall>c\<in>set line. is_space c)
       \<or> (\<exists>name block ws r. line = name @ block @ ws @ CHR ''-'' # r
             \<and> name \<noteq> [] \<and> (\<forall>c\<in>set name. is_word c)
             \<and> (block = [] \<or> (\<exists>body. block = CHR ''{'' # body @ ''}'' \<and> CHR ''}'' \<notin> set body))
             \<and> ws \<noteq> [] \<and> (\<forall>c\<in>set ws. is_space c))
       \<or> match_line line = None"
  shows "scrape_line timestamp line = []
         \<and> scrape timestamp metrics =
             scrape_loop timestamp (filter keep_line pre) []
             @ scrape_loop timestamp (filter keep_line post) []"
proof -
  from line have none: "match_line line = None"
  proof (elim disjE)
    assume "\<exists>r. line = CHR ''#'' # r"
    then show ?thesis using comment_unmatched by auto
  next
    assume "\<forall>c\<in>set line. is_space c"
    then show ?thesis by (rule blank_unmatched)
  next
    assume "\<exists>name block ws r. line = name @ block @ ws @ CHR ''-'' # r
             \<and> name \<noteq> [] \<and> (\<forall>c\<in>set name. is_word c)
             \<and> (block = [] \<or> (\<exists>body. block = CHR ''{'' # body @ ''}'' \<and> CHR ''}'' \<notin> set body))
             \<and> ws \<noteq> [] \<and> (\<forall>c\<in>set ws. is_space c)"
    then obtain name block ws r where "line = name @ block @ ws @ CHR ''-'' # r"
          "name \<noteq> []" "\<forall>c\<in>set name. is_word c"
          "block = [] \<or> (\<exists>body. block = CHR ''{'' # body @ ''}'' \<and> CHR ''}'' \<notin> set body)"
          "ws \<noteq> []" "\<forall>c\<in>set ws. is_space c"
      by (elim exE conjE)
    then show ?thesis using negative_unmatched by simp
  next
    assume "match_line line = None"
    then show ?thesis .
  qed
  then have "scrape_line timestamp line = []" by (simp add: scrape_line_cases)
  with scrape_split[OF split, of timestamp] show ?thesis by simp
qed

theorem unmatched_line_skipped_witness:
  \<open>split_nl ''# TYPE up gauge\<newline>up{job="api"} 1\<newline>temp -3.5\<newline>\<newline>load 0.25''
     = [''# TYPE up gauge'', ''up{job="api"} 1''] @ ''temp -3.5'' # ['''', ''load 0.25'']
   \<and> ''temp -3.5'' = ''temp'' @ [] @ '' '' @ CHR ''-'' # ''3.5''
   \<and> list_all is_word ''temp'' \<and> list_all is_space '' ''
   \<and> scrape_line 9 ''temp -3.5'' = []
   \<and> scrape 9 ''# TYPE up gauge\<newline>up{job="api"} 1\<newline>temp -3.5\<newline>\<newline>load 0.25''
       = [TimeSeries [Label ''__name__'' ''up'', Label ''job'' ''api''] [Sample (Num 1) 9],
          TimeSeries [Label ''__name__'' ''load''] [Sample (Num (1 / 4)) 9]]\<close>
proof -
  have s: \<open>split_nl ''# TYPE up gauge\<newline>up{job="api"} 1\<newline>temp -3.5\<newline>\<newline>load 0.25''
     = [''# TYPE up gauge'', ''up{job="api"} 1''] @ ''temp -3.5'' # ['''', ''load 0.25'']\<close>
    by simp
  have n: "\<forall>c\<in>set ''temp''. is_word c" by (simp add: is_word_def)
  have w: "\<forall>c\<in>set '' ''. is_space c" by (simp add: is_space_def)
  have l: "(\<exists>r. ''temp -3.5'' = CHR ''#'' # r)
       \<or> (\<forall>c\<in>set ''temp -3.5''. is_space c)
       \<or> (\<exists>name block ws r. ''temp -3.5'' = name @ block @ ws @ CHR ''-'' # r
             \<and> name \<noteq> [] \<and> (\<forall>c\<in>set name. is_word c)
             \<and> (block = [] \<or> (\<exists>body. block = CHR ''{'' # body @ ''}'' \<and> CHR ''}'' \<notin> set body))
             \<and> ws \<noteq> [] \<and> (\<forall>c\<in>set ws. is_space c))
       \<or> match_line ''temp -3.5'' = None"
  proof -
    have "''temp -3.5'' = ''temp'' @ [] @ '' '' @ CHR ''-'' # ''3.5''
             \<and> ''temp'' \<noteq> [] \<and> (\<forall>c\<in>set ''temp''. is_word c)
             \<and> ([] = [] \<or> (\<exists>body. [] = CHR ''{'' # body @ ''}'' \<and> CHR ''}'' \<notin> set body))
             \<and> '' '' \<noteq> [] \<and> (\<forall>c\<in>set '' ''. is_space c)"
      using n w by simp
    then have "\<exists>name block ws r. ''temp -3.5'' = name @ block @ ws @ CHR ''-'' # r
             \<and> name \<noteq> [] \<and> (\<forall>c\<in>set name. is_word c)
             \<and> (block = [] \<or> (\<exists>body. block = CHR ''{'' # body @ ''}'' \<and> CHR ''}'' \<notin> set body))
             \<and> ws \<noteq> [] \<and> (\<forall>c\<in>set ws. is_space c)"
      by (intro exI[of _ "''temp''"] exI[of _ "[]"] exI[of _ "'' ''"] exI[of _ "''3.5''"])
    then show ?thesis by (intro disjI2 disjI1)
  qed
  have a: \<open>scrape_loop 9 (filter keep_line [''# TYPE up gauge'', ''up{job="api"} 1'']) []
            = [TimeSeries [Label ''__name__'' ''up'', Label ''job'' ''api''] [Sample (Num 1) 9]]\<close>
    by code_simp
  have b: \<open>scrape_loop 9 (filter keep_line ['''', ''load 0.25'']) []
            = [TimeSeries [Label ''__name__'' ''load''] [Sample (Num (1 / 4)) 9]]\<close>
    by code_simp
  have r: \<open>scrape_line 9 ''temp -3.5'' = []
         \<and> scrape 9 ''# TYPE up gauge\<newline>up{job="api"} 1\<newline>temp -3.5\<newline>\<newline>load 0.25'' =
             scrape_loop 9 (filter keep_line [''# TYPE up gauge'', ''up{job="api"} 1'']) []
             @ scrape_loop 9 (filter keep_line ['''', ''load 0.25'']) []\<close>
    by (rule unmatched_line_skipped[OF s l, of 9])
  have c: "''temp -3.5'' = ''temp'' @ [] @ '' '' @ CHR ''-'' # ''3.5''" by simp
  have n': "list_all is_word ''temp''" using n by (simp add: list_all_iff)
  have w': "list_all is_space '' ''" using w by (simp add: list_all_iff)
  show ?thesis
    using r a b by (intro conjI s c n' w') simp_all
qed

section \<open>Sending on the full path\<close>

declare show_nat.simps [simp del]

lemma send_failed_eq:
  "send_failed err w =
     (Inr (), w\<lparr>console := console w
                @ Err (''Failed to send metrics to Prometheus: '' @ error_message err)
                # (case err of
                     AxiosError m (Some (status, d)) \<Rightarrow>
                       [Err (''   Response status: '' @ show_nat status),
                        Err (''   Response data: '' @ body_text d)]
                   | _ \<Rightarrow> [])\<rparr>)"
  by (simp add: send_failed_def bind_io_def console_error_def return_io_def
           split: error.splits option.splits prod.splits)

lemma axios_resolves:
  assumes "http e (length (calls w)) req = Response status d"
    and "200 \<le> status \<and> status < 300"
  shows "axios e req w = (Inr (status, d), w\<lparr>calls := calls w @ [req]\<rparr>)"
  using assms by (simp add: axios_def Let_def)

lemma axios_rejects:
  assumes "http e (length (calls w)) req = Response status d"
    and "\<not> (200 \<le> status \<and> status < 300)"
  shows "axios e req w =
           (Inl (AxiosError (''Request failed with status code '' @ show_nat status)
                            (Some (status, d))),
            w\<lparr>calls := calls w @ [req]\<rparr>)"
  using assms by (cases "200 \<le> status"; cases "status < 300"; simp add: axios_def Let_def)

lemma axios_unanswered:
  assumes "http e (length (calls w)) req = NoResponse msg"
  shows "axios e req w = (Inl (AxiosError msg None), w\<lparr>calls := calls w @ [req]\<rparr>)"
  using assms by (simp add: axios_def Let_def)

lemma send_payload_thrown:
  "send_payload e (Inl err) w = send_failed err w"
  by (simp add: send_payload_def try_catch_def bind_io_def of_result_def)

lemma send_payload_sent:
  assumes "http e (length (calls w)) (write_request e payload) = Response status d"
    and "200 \<le> status \<and> status < 300"
  shows "send_payload e (Inr payload) w =
           (Inr (), w\<lparr>calls := calls w @ [write_request e payload],
                      console := console w
                        @ [Log (''Metrics sent to Prometheus at '' @ clock e),
                           Log (''   Response status: '' @ show_nat status)]\<rparr>)"
  by (simp add: send_payload_def try_catch_def bind_io_def of_result_def
        axios_resolves[OF assms] console_log_def)

lemma send_payload_rejected:
  assumes "http e (length (calls w)) (write_request e payload) = Response status d"
    and "\<not> (200 \<le> status \<and> status < 300)"
  shows "send_payload e (Inr payload) w =
           (Inr (), w\<lparr>calls := calls w @ [write_request e payload],
                      console := console w
                        @ [Err (''Failed to send metrics to Prometheus: ''
                                @ ''Request failed with status code '' @ show_nat status),
                           Err (''   Response status: '' @ show_nat status),
                           Err (''   Response data: '' @ body_text d)]\<rparr>)"
  by (simp add: send_payload_def try_catch_def bind_io_def of_result_def
        axios_rejects[OF assms] send_failed_eq)

lemma send_payload_unanswered:
  assumes "http e (length (calls w)) (write_request e payload) = NoResponse msg"
  shows "send_payload e (Inr payload) w =
           (Inr (), w\<lparr>calls := calls w @ [write_request e payload],
                      console := console w
                        @ [Err (''Failed to send metrics to Prometheus: '' @ msg)]\<rparr>)"
  by (simp add: send_payload_def try_catch_def bind_io_def of_result_def
        axios_unanswered[OF assms] send_failed_eq)

text \<open>Summary of a send on the full path.\<close>

lemma send_payload_summary:
  "fst (send_payload e encoded w) = Inr ()
   \<and> called w (snd (send_payload e encoded w))
       = (case encoded of Inl err \<Rightarrow> [] | Inr payload \<Rightarrow> [write_request e payload])
   \<and> calls (snd (send_payload e encoded w))
       = calls w @ called w (snd (send_payload e encoded w))
   \<and> (failure_logged w (snd (send_payload e encoded w))
        \<longleftrightarrow> (case encoded of
               Inl err \<Rightarrow> True
             | Inr payload \<Rightarrow> \<not> succeeded (http e (length (calls w)) (write_request e payload))))"
proof (cases encoded)
  case (Inl err)
  then show ?thesis
    by (simp add: send_payload_thrown send_failed_eq called_def failure_logged_def printed_def)
next
  case (Inr payload)
  show ?thesis
  proof (cases "http e (length (calls w)) (write_request e payload)")
    case (Response status d)
    show ?thesis
    proof (cases "200 \<le> status \<and> status < 300")
      case True
      with Inr Response show ?thesis
        by (simp add: send_payload_sent[OF Response True] called_def failure_logged_def printed_def)
    next
      case False
      with Inr Response show ?thesis
        by (simp add: send_payload_rejected[OF Response False] called_def failure_logged_def
              printed_def)
    qed
  next
    case (NoResponse msg)
    with Inr show ?thesis
      by (simp add: send_payload_unanswered[OF NoResponse] called_def failure_logged_def
            printed_def)
  qed
qed

section \<open>Sending on the simple path\<close>

lemma log_each_eq:
  "log_each e ms w =
     (Inr (), w\<lparr>console := console w
                  @ map (\<lambda>m. Log (''   - '' @ fst m @ '' = '' @ num_text e (snd m))) ms\<rparr>)"
  by (induction ms arbitrary: w) (simp_all add: return_io_def bind_io_def console_log_def)

lemma simple_send_resolved:
  assumes "helper_outcome e (length (calls w)) = Resolved"
  shows "simple_sendMetricsToPrometheus e w =
           (Inr (), w\<lparr>calls := calls w @ [push_request e],
                      console := console w
                        @ Log (''Sending '' @ show_nat (length (generateMetrics e))
                               @ '' metrics to Prometheus...'')
                        # map (\<lambda>m. Log (''   - '' @ fst m @ '' = '' @ num_text e (snd m)))
                              (generateMetrics e)
                        @ [Log (''Metrics sent to Prometheus at '' @ clock e)]\<rparr>)"
  using assms
  by (simp add: simple_sendMetricsToPrometheus_def try_catch_def bind_io_def return_io_def
        console_log_def log_each_eq pushMetrics_def push_request_def helper_outcome_def Let_def)

lemma simple_send_rejected:
  assumes "helper_outcome e (length (calls w)) = Rejected err"
  shows "simple_sendMetricsToPrometheus e w =
           (Inr (), w\<lparr>calls := calls w @ [push_request e],
                      console := console w
                        @ Log (''Sending '' @ show_nat (length (generateMetrics e))
                               @ '' metrics to Prometheus...'')
                        # map (\<lambda>m. Log (''   - '' @ fst m @ '' = '' @ num_text e (snd m)))
                              (generateMetrics e)
                        @ [Err (''Failed to send metrics to Prometheus: ''
                                @ error_message err)]\<rparr>)"
  using assms
  by (simp add: simple_sendMetricsToPrometheus_def try_catch_def bind_io_def return_io_def
        console_log_def console_error_def log_each_eq pushMetrics_def push_request_def
        helper_outcome_def Let_def)

lemma not_failure_metric_line:
  "\<not> list_ex is_failure_entry (map (\<lambda>m. Log (f m)) ms)"
  by (induction ms) simp_all

lemma simple_send_summary:
  "fst (simple_sendMetricsToPrometheus e w) = Inr ()
   \<and> called w (snd (simple_sendMetricsToPrometheus e w)) = [push_request e]
   \<and> calls (snd (simple_sendMetricsToPrometheus e w)) = calls w @ [push_request e]
   \<and> (failure_logged w (snd (simple_sendMetricsToPrometheus e w))
        \<longleftrightarrow> helper_outcome e (length (calls w)) \<noteq> Resolved)"
proof (cases "helper_outcome e (length (calls w))")
  case Resolved
  then show ?thesis
    by (simp add: simple_send_resolved[OF Resolved] called_def failure_logged_def printed_def
          not_failure_metric_line)
next
  case (Rejected err)
  then show ?thesis
    by (simp add: simple_send_rejected[OF Rejected] called_def failure_logged_def printed_def)
qed

lemma sendMetricsToPrometheus_eq:
  "sendMetricsToPrometheus e =
     send_payload e (Inr (compressor e (serializer e
        (WriteRequest (scrape (date_now e) (register_metrics e))))))"
  by (simp add: sendMetricsToPrometheus_def metricsToRemoteWrite_returns)

section \<open>Fire and forget\<close>

lemma generateAndSendMetrics_eq:
  "generateAndSendMetrics e w =
     sendMetricsToPrometheus e
       (w\<lparr>console := console w
            @ [Log (''Updated metrics - Gauge: '' @ gauge_text e @ '', Duration: ''
                    @ duration_text e @ ''s'')]\<rparr>)"
  by (simp add: generateAndSendMetrics_def updateMetrics_def bind_io_def console_log_def)

lemma send_payload_console:
  "console (snd (send_payload e encoded w))
     = console w @ printed w (snd (send_payload e encoded w))"
proof (cases encoded)
  case (Inl err)
  then show ?thesis
    by (simp add: send_payload_thrown send_failed_eq printed_def)
next
  case (Inr payload)
  show ?thesis
  proof (cases "http e (length (calls w)) (write_request e payload)")
    case (Response status d)
    show ?thesis
    proof (cases "200 \<le> status \<and> status < 300")
      case True
      with Inr show ?thesis
        by (simp add: send_payload_sent[OF Response True] printed_def)
    next
      case False
      with Inr show ?thesis
        by (simp add: send_payload_rejected[OF Response False] printed_def)
    qed
  next
    case (NoResponse msg)
    with Inr show ?thesis
      by (simp add: send_payload_unanswered[OF NoResponse] printed_def)
  qed
qed

lemma printed_after:
  assumes "console w2 = console w @ [l]" "console w' = console w2 @ new"
  shows "printed w w' = l # new" "printed w2 w' = new"
  using assms by (simp_all add: printed_def)

text \<open>Summary of the entry point of the full path.\<close>

lemma full_entry_summary:
  "fst (generateAndSendMetrics e w) = Inr ()
   \<and> called w (snd (generateAndSendMetrics e w))
       = [write_request e (compressor e (serializer e
            (WriteRequest (scrape (date_now e) (register_metrics e)))))]
   \<and> (failure_logged w (snd (generateAndSendMetrics e w))
        \<longleftrightarrow> \<not> succeeded (http e (length (calls w))
               (write_request e (compressor e (serializer e
                  (WriteRequest (scrape (date_now e) (register_metrics e))))))))"
proof -
  define line where "line = ''Updated metrics - Gauge: '' @ gauge_text e @ '', Duration: ''
                    @ duration_text e @ ''s''"
  define w2 where "w2 = w\<lparr>console := console w @ [Log line]\<rparr>"
  define payload where "payload = compressor e (serializer e
                (WriteRequest (scrape (date_now e) (register_metrics e))))"
  define w' where "w' = snd (send_payload e (Inr payload) w2)"
  have run: "generateAndSendMetrics e w = send_payload e (Inr payload) w2"
    by (simp add: generateAndSendMetrics_eq sendMetricsToPrometheus_eq line_def w2_def payload_def)
  have cw: "calls w2 = calls w" "console w2 = console w @ [Log line]"
    by (simp_all add: w2_def)
  have s: "fst (send_payload e (Inr payload) w2) = Inr ()"
     "called w2 w' = [write_request e payload]"
     "failure_logged w2 w' \<longleftrightarrow> \<not> succeeded (http e (length (calls w)) (write_request e payload))"
    using send_payload_summary[of e "Inr payload" w2] cw(1) by (simp_all add: w'_def)
  have c: "called w w' = called w2 w'" using cw(1) by (simp add: called_def)
  have "console w' = console w2 @ printed w2 w'"
    using send_payload_console[of e "Inr payload" w2] by (simp add: w'_def)
  from printed_after(1)[OF cw(2) this]
  have "printed w w' = Log line # printed w2 w'" .
  then have f: "failure_logged w w' \<longleftrightarrow> failure_logged w2 w'"
    by (simp add: failure_logged_def)
  have "fst (generateAndSendMetrics e w) = Inr ()
   \<and> called w (snd (generateAndSendMetrics e w)) = [write_request e payload]
   \<and> (failure_logged w (snd (generateAndSendMetrics e w))
        \<longleftrightarrow> \<not> succeeded (http e (length (calls w)) (write_request e payload)))"
    unfolding run using s c f by (simp add: w'_def)
  then show ?thesis by (simp add: payload_def)
qed

text \<open>
  Claim C6, as stated, fails on the simple path.  The client awaits the push helper and
  discards the value it resolves with.  With a helper that resolves on every response and
  reports the status in that value, a response with status 500 is not a success, yet no
  failure is printed: the console ends with the \<open>Metrics sent\<close> line.
\<close>

theorem resolved_failure_not_logged:
  "\<not> succeeded (http (fetch_env (always (Response 500 (Text ''Internal Server Error''))) :: unit env)
                    0 (push_request (fetch_env (always (Response 500 (Text ''Internal Server Error''))))))
   \<and> \<not> failure_logged (start :: unit world)
         (snd (simple_generateAndSendMetrics
                 (fetch_env (always (Response 500 (Text ''Internal Server Error'')))) start))
   \<and> console (snd (simple_generateAndSendMetrics
                 (fetch_env (always (Response 500 (Text ''Internal Server Error''))))
                 (start :: unit world)))
       = [Log ''Sending 4 metrics to Prometheus...'',
          Log ''   - demo_counter_total = 42'',
          Log ''   - demo_gauge = 42'',
          Log ''   - demo_duration_seconds = 42'',
          Log ''   - custom_metric = 42'',
          Log ''Metrics sent to Prometheus at 2024-01-01T00:00:00.000Z'']"
  by code_simp

text \<open>
  Claim C6, amended.  On both write paths the entry point returns normally whatever
  happens, and no error reaches the caller: on the full path whatever the encode step gave
  (the compressed data or a thrown error) and whatever the network did with the request,
  on the simple path whatever the network did and whatever the push helper made of it.
  At most one call leaves the process: none when the encode step threw, otherwise exactly
  the one write.  On the full path a failure is printed to the console as an error exactly
  when the encode step threw or the request got no response or a status outside 200 to
  299.  On the simple path a failure is printed exactly when the push helper rejected.
\<close>

theorem fire_and_forget:
  "fst (send_payload e encoded w) = Inr ()
   \<and> called w (snd (send_payload e encoded w))
       = (case encoded of Inl err \<Rightarrow> [] | Inr payload \<Rightarrow> [write_request e payload])
   \<and> (failure_logged w (snd (send_payload e encoded w))
        \<longleftrightarrow> (case encoded of
               Inl err \<Rightarrow> True
             | Inr payload \<Rightarrow> \<not> succeeded (http e (length (calls w)) (write_request e payload))))
   \<and> fst (generateAndSendMetrics fe w) = Inr ()
   \<and> called w (snd (generateAndSendMetrics fe w))
       = [write_request fe (compressor fe (serializer fe
            (WriteRequest (scrape (date_now fe) (register_metrics fe)))))]
   \<and> (failure_logged w (snd (generateAndSendMetrics fe w))
        \<longleftrightarrow> \<not> succeeded (http fe (length (calls w))
               (write_request fe (compressor fe (serializer fe
                  (WriteRequest (scrape (date_now fe) (register_metrics fe))))))))
   \<and> fst (simple_generateAndSendMetrics e w) = Inr ()
   \<and> called w (snd (simple_generateAndSendMetrics e w)) = [push_request e]
   \<and> (failure_logged w (snd (simple_generateAndSendMetrics e w))
        \<longleftrightarrow> helper_outcome e (length (calls w)) \<noteq> Resolved)"
  using send_payload_summary[of e encoded w] full_entry_summary[of fe w]
    simple_send_summary[of e w]
  by (simp add: simple_generateAndSendMetrics_def)

theorem fire_and_forget_witness:
  "fst (generateAndSendMetrics (sample_env (NoResponse ''timeout of 5000ms exceeded'') Resolved) start)
     = Inr ()
   \<and> called start (snd (generateAndSendMetrics
        (sample_env (NoResponse ''timeout of 5000ms exceeded'') Resolved) start))
      = [Post ''http://localhost:9090/api/v1/write''
             (WriteRequest
               [TimeSeries [Label ''__name__'' ''demo_counter_total'', Label ''service'' ''demo-service'']
                           [Sample (Num 42) 1704067200000]])
             write_headers 5000]
   \<and> failure_logged start (snd (generateAndSendMetrics
        (sample_env (NoResponse ''timeout of 5000ms exceeded'') Resolved) start))
   \<and> failure_logged start
        (snd (send_payload (sample_env (NoResponse ''timeout of 5000ms exceeded'') Resolved)
                (Inl (Error ''Protobuf validation failed: timeseries: array expected'')) start))
   \<and> called start
        (snd (send_payload (sample_env (NoResponse ''timeout of 5000ms exceeded'') Resolved)
                (Inl (Error ''Protobuf validation failed: timeseries: array expected'')) start))
       = []
   \<and> fst (simple_generateAndSendMetrics
            (fetch_env (always (NoResponse ''connect ECONNREFUSED 127.0.0.1:9090'')))
            (start :: jsval world))
       = Inr ()
   \<and> failure_logged (start :: jsval world)
        (snd (simple_generateAndSendMetrics
            (fetch_env (always (NoResponse ''connect ECONNREFUSED 127.0.0.1:9090''))) start))"
proof -
  let ?f = "sample_env (NoResponse ''timeout of 5000ms exceeded'') Resolved"
  let ?s = "fetch_env (always (NoResponse ''connect ECONNREFUSED 127.0.0.1:9090'')) :: jsval env"
  let ?enc = "Inl (Error ''Protobuf validation failed: timeseries: array expected'') :: error + jsval"
  have h: "helper_outcome ?s n \<noteq> Resolved" for n
    by (simp add: helper_outcome_def fetch_env_def resolves_on_response_def always_def)
  have n: "\<not> succeeded (http ?f n req)" for n req
    by (simp add: sample_env_def)
  have sc: "scrape (date_now ?f) (register_metrics ?f)
      = [TimeSeries [Label ''__name__'' ''demo_counter_total'', Label ''service'' ''demo-service'']
                           [Sample (Num 42) 1704067200000]]"
    by code_simp
  have u: "PROMETHEUS_URL ?f = ''http://localhost:9090''"
    by (simp add: PROMETHEUS_URL_def sample_env_def)
  have cs: "compressor ?f = id" "serializer ?f = id" by (simp_all add: sample_env_def)
  show ?thesis
    using h n sc u cs fire_and_forget[of ?f ?enc start ?f] fire_and_forget[of ?s "Inl (Error [])" start ?f]
    by (simp add: write_request_def)
qed

text \<open>
  Claim C7.  On the full path every invocation makes exactly one call, the POST of the
  compressed write request to \<open>{PROMETHEUS_URL}/api/v1/write\<close> with exactly the three
  protocol headers and a timeout of 5000 milliseconds; a response outside 200 to 299 is
  printed as an error, with its status and data, and nothing is sent again.
\<close>

theorem full_path_single_post:
  "called w (snd (sendMetricsToPrometheus e w))
     = [Post (PROMETHEUS_URL e @ ''/api/v1/write'')
             (compressor e (serializer e (WriteRequest (scrape (date_now e) (register_metrics e)))))
             [(''Content-Type'', ''application/x-protobuf''),
              (''Content-Encoding'', ''snappy''),
              (''X-Prometheus-Remote-Write-Version'', ''0.1.0'')]
             5000]
   \<and> calls (snd (sendMetricsToPrometheus e w))
       = calls w @ called w (snd (sendMetricsToPrometheus e w))
   \<and> fst (sendMetricsToPrometheus e w) = Inr ()
   \<and> (\<forall>status d.
         http e (length (calls w))
           (Post (PROMETHEUS_URL e @ ''/api/v1/write'')
             (compressor e (serializer e (WriteRequest (scrape (date_now e) (register_metrics e)))))
             [(''Content-Type'', ''application/x-protobuf''),
              (''Content-Encoding'', ''snappy''),
              (''X-Prometheus-Remote-Write-Version'', ''0.1.0'')]
             5000) = Response status d
         \<and> \<not> (200 \<le> status \<and> status < 300)
         \<longrightarrow> printed w (snd (sendMetricsToPrometheus e w))
               = [Err (''Failed to send metrics to Prometheus: Request failed with status code ''
                       @ show_nat status),
                  Err (''   Response status: '' @ show_nat status),
                  Err (''   Response data: '' @ body_text d)])"
proof -
  let ?payload = "compressor e (serializer e (WriteRequest (scrape (date_now e) (register_metrics e))))"
  have req: "write_request e ?payload =
     Post (PROMETHEUS_URL e @ ''/api/v1/write'') ?payload
             [(''Content-Type'', ''application/x-protobuf''),
              (''Content-Encoding'', ''snappy''),
              (''X-Prometheus-Remote-Write-Version'', ''0.1.0'')]
             5000"
    by (simp add: write_request_def write_headers_def)
  have s: "fst (sendMetricsToPrometheus e w) = Inr ()
      \<and> called w (snd (sendMetricsToPrometheus e w)) = [write_request e ?payload]
      \<and> calls (snd (sendMetricsToPrometheus e w)) = calls w @ called w (snd (sendMetricsToPrometheus e w))"
    using send_payload_summary[of e "Inr ?payload" w]
    by (simp add: sendMetricsToPrometheus_eq)
  have r: "printed w (snd (sendMetricsToPrometheus e w))
               = [Err (''Failed to send metrics to Prometheus: Request failed with status code ''
                       @ show_nat status),
                  Err (''   Response status: '' @ show_nat status),
                  Err (''   Response data: '' @ body_text d)]"
    if "http e (length (calls w)) (write_request e ?payload) = Response status d"
      and "\<not> (200 \<le> status \<and> status < 300)" for status d
    by (simp add: sendMetricsToPrometheus_eq send_payload_rejected[OF that] printed_def)
  show ?thesis
    using s r unfolding req by blast
qed

theorem full_path_single_post_witness:
  "calls (snd (sendMetricsToPrometheus (sample_env (Response 503 (Text ''unavailable'')) Resolved) start))
     = [Post ''http://localhost:9090/api/v1/write''
             (WriteRequest
               [TimeSeries [Label ''__name__'' ''demo_counter_total'', Label ''service'' ''demo-service'']
                           [Sample (Num 42) 1704067200000]])
             [(''Content-Type'', ''application/x-protobuf''),
              (''Content-Encoding'', ''snappy''),
              (''X-Prometheus-Remote-Write-Version'', ''0.1.0'')]
             5000]
   \<and> console (snd (sendMetricsToPrometheus (sample_env (Response 503 (Text ''unavailable'')) Resolved) start))
     = [Err ''Failed to send metrics to Prometheus: Request failed with status code 503'',
        Err ''   Response status: 503'',
        Err ''   Response data: unavailable'']"
proof -
  let ?e = "sample_env (Response 503 (Text ''unavailable'')) Resolved"
  have sc: "scrape (date_now ?e) (register_metrics ?e)
      = [TimeSeries [Label ''__name__'' ''demo_counter_total'', Label ''service'' ''demo-service'']
                           [Sample (Num 42) 1704067200000]]"
    by code_simp
  have u: "PROMETHEUS_URL ?e = ''http://localhost:9090''"
    by (simp add: PROMETHEUS_URL_def sample_env_def)
  have n: "show_nat 503 = ''503''" by code_simp
  have h: "http ?e n req = Response 503 (Text ''unavailable'')" for n req
    by (simp add: sample_env_def)
  have cs: "compressor ?e = id" "serializer ?e = id" by (simp_all add: sample_env_def)
  show ?thesis
    using full_path_single_post[of start ?e] sc u n h cs
    by (simp add: called_def printed_def start_def)
qed

section \<open>The test scripts\<close>

lemma log_all_eq: "log_all ss w = (Inr (), w\<lparr>console := console w @ map Log ss\<rparr>)"
  by (induction ss arbitrary: w) (simp_all add: return_io_def bind_io_def console_log_def)

lemma getPrometheusStatus_summary:
  "fst (getPrometheusStatus e w)
     = Inr (succeeded (http e (length (calls w)) (health_request e)))
   \<and> calls (snd (getPrometheusStatus e w)) = calls w @ [health_request e]"
proof (cases "http e (length (calls w)) (health_request e)")
  case (Response status d)
  show ?thesis
  proof (cases "200 \<le> status \<and> status < 300")
    case True
    have "axios e (health_request e) (w\<lparr>console := c\<rparr>)
            = (Inr (status, d), w\<lparr>console := c, calls := calls w @ [health_request e]\<rparr>)" for c
      using axios_resolves[of e "w\<lparr>console := c\<rparr>" "health_request e" status d] Response True
      by simp
    with Response True show ?thesis
      by (simp add: getPrometheusStatus_def try_catch_def bind_io_def console_log_def
            return_io_def)
  next
    case False
    have "axios e (health_request e) (w\<lparr>console := c\<rparr>)
            = (Inl (AxiosError (''Request failed with status code '' @ show_nat status)
                            (Some (status, d))),
               w\<lparr>console := c, calls := calls w @ [health_request e]\<rparr>)" for c
      using axios_rejects[of e "w\<lparr>console := c\<rparr>" "health_request e" status d] Response False
      by simp
    with Response False show ?thesis
      by (simp add: getPrometheusStatus_def try_catch_def bind_io_def console_log_def
            console_error_def return_io_def)
  qed
next
  case (NoResponse msg)
  have "axios e (health_request e) (w\<lparr>console := c\<rparr>)
            = (Inl (AxiosError msg None),
               w\<lparr>console := c, calls := calls w @ [health_request e]\<rparr>)" for c
    using axios_unanswered[of e "w\<lparr>console := c\<rparr>" "health_request e" msg] NoResponse
    by simp
  with NoResponse show ?thesis
    by (simp add: getPrometheusStatus_def try_catch_def bind_io_def console_log_def
          console_error_def return_io_def)
qed

lemma io_pair: "m w = (fst (m w), snd (m w))"
  by simp

lemma bind_io_Inr: "m w = (Inr x, w') \<Longrightarrow> bind_io m f w = f x w'"
  by (simp add: bind_io_def)

lemma print_results_calls:
  "calls (snd (print_results e t i rs w)) = calls w"
proof (induction rs arbitrary: i w)
  case Nil
  then show ?case by (simp add: return_io_def)
next
  case (Cons r rs)
  show ?case
  proof (cases "result_line e t i r")
    case (Inl err)
    then show ?thesis by (simp add: bind_io_def of_result_def)
  next
    case (Inr line)
    then show ?thesis
      using Cons[of "i + 1" "w\<lparr>console := console w @ [Log line]\<rparr>"]
      by (simp add: bind_io_def of_result_def console_log_def)
  qed
qed

lemma report_calls: "calls (snd (report e t d w)) = calls w"
proof (cases d)
  case (Text s)
  then show ?thesis by (simp add: report_def console_log_def)
next
  case (Json resp)
  obtain status dat err where resp: "resp = PrometheusResponse status dat err"
    by (cases resp)
  show ?thesis
  proof (cases "status = ''success''")
    case False
    with Json resp show ?thesis by (simp add: report_def console_log_def)
  next
    case True
    show ?thesis
    proof (cases dat)
      case None
      with Json resp True show ?thesis
        by (simp add: report_def console_log_def bind_io_def of_result_def)
    next
      case (Some res)
      show ?thesis
      proof (cases res)
        case None
        with Json resp True Some show ?thesis
          by (simp add: report_def console_log_def bind_io_def)
      next
        case (Some result)
        with Json resp True \<open>dat = Some res\<close> show ?thesis
          using print_results_calls[of e t 0 result]
          by (simp add: report_def console_log_def bind_io_def)
      qed
    qed
  qed
qed

lemma report_empty:
  "report e t (Json (PrometheusResponse ''success'' (Some (Some [])) err)) w =
     (Inr (), w\<lparr>console := console w
                  @ [Log ''   Status: success'', Log ''   No data found for this query'']\<rparr>)"
  by (simp add: report_def console_log_def bind_io_def)

lemma query_failed_eq:
  "query_failed err w =
     (Inr (), w\<lparr>console := console w
                @ Err (''   Error querying Prometheus: '' @ error_message err)
                # (case err of
                     AxiosError m (Some (status, d)) \<Rightarrow>
                       [Err (''      Status: '' @ show_nat status),
                        Err (''      Data: '' @ body_text d)]
                   | _ \<Rightarrow> [])\<rparr>)"
  by (simp add: query_failed_def bind_io_def console_error_def return_io_def
           split: error.splits option.splits prod.splits)

text \<open>A query after its request: the report, and the handler if the report throws.\<close>

lemma report_caught:
  "fst (try_catch (report e t d) query_failed w) = Inr ()
   \<and> calls (snd (try_catch (report e t d) query_failed w)) = calls w"
proof -
  obtain r w' where rw: "report e t d w = (r, w')" by (cases "report e t d w")
  with report_calls[of e t d w] have c: "calls w' = calls w" by simp
  show ?thesis
  proof (cases r)
    case (Inl err)
    with rw c show ?thesis by (simp add: try_catch_def query_failed_eq)
  next
    case (Inr u)
    with rw c show ?thesis by (simp add: try_catch_def)
  qed
qed

lemma query_with_unfold:
  "query_with e t query name w =
     (let w2 = w\<lparr>console := console w @ [Log (''Querying: '' @ name), Log (''   Query: '' @ query)]\<rparr>
      in case axios e (query_request e query) w2 of
           (Inl err, w3) \<Rightarrow> query_failed err w3
         | (Inr response, w3) \<Rightarrow> try_catch (report e t (snd response)) query_failed w3)"
  by (simp add: query_with_def try_catch_def bind_io_def console_log_def Let_def
           split: prod.splits sum.splits)

lemma query_with_summary:
  "fst (query_with e t query name w) = Inr ()
   \<and> calls (snd (query_with e t query name w)) = calls w @ [query_request e query]"
proof -
  let ?w2 = "w\<lparr>console := console w @ [Log (''Querying: '' @ name), Log (''   Query: '' @ query)]\<rparr>"
  let ?req = "query_request e query"
  have l: "length (calls ?w2) = length (calls w)" by simp
  show ?thesis
  proof (cases "http e (length (calls w)) ?req")
    case (Response status d)
    show ?thesis
    proof (cases "200 \<le> status \<and> status < 300")
      case True
      have "axios e ?req ?w2 = (Inr (status, d), ?w2\<lparr>calls := calls ?w2 @ [?req]\<rparr>)"
        using Response True l by (intro axios_resolves) simp_all
      then show ?thesis
        using report_caught[of e t d "?w2\<lparr>calls := calls ?w2 @ [?req]\<rparr>"]
        by (simp add: query_with_unfold)
    next
      case False
      have "axios e ?req ?w2 =
              (Inl (AxiosError (''Request failed with status code '' @ show_nat status)
                               (Some (status, d))),
               ?w2\<lparr>calls := calls ?w2 @ [?req]\<rparr>)"
        using Response False l by (intro axios_rejects) simp_all
      then show ?thesis
        by (simp add: query_with_unfold query_failed_eq)
    qed
  next
    case (NoResponse msg)
    have "axios e ?req ?w2 = (Inl (AxiosError msg None), ?w2\<lparr>calls := calls ?w2 @ [?req]\<rparr>)"
      using NoResponse l by (intro axios_unanswered) simp_all
    then show ?thesis
      by (simp add: query_with_unfold query_failed_eq)
  qed
qed

lemma query_with_empty:
  assumes "http e (length (calls w)) (query_request e query)
             = Response status (Json (PrometheusResponse ''success'' (Some (Some [])) err))"
    and "200 \<le> status \<and> status < 300"
  shows "printed w (snd (query_with e t query name w))
           = [Log (''Querying: '' @ name), Log (''   Query: '' @ query),
              Log ''   Status: success'', Log ''   No data found for this query'']"
proof -
  let ?w2 = "w\<lparr>console := console w @ [Log (''Querying: '' @ name), Log (''   Query: '' @ query)]\<rparr>"
  let ?req = "query_request e query"
  have "axios e ?req ?w2 = (Inr (status, Json (PrometheusResponse ''success'' (Some (Some [])) err)),
                            ?w2\<lparr>calls := calls ?w2 @ [?req]\<rparr>)"
    using assms by (intro axios_resolves) simp_all
  then show ?thesis
    by (simp add: query_with_unfold try_catch_def report_empty printed_def)
qed

lemma query_with_unanswered:
  assumes "http e (length (calls w)) (query_request e query) = NoResponse msg"
  shows "printed w (snd (query_with e t query name w))
           = [Log (''Querying: '' @ name), Log (''   Query: '' @ query),
              Err (''   Error querying Prometheus: '' @ msg)]"
proof -
  let ?w2 = "w\<lparr>console := console w @ [Log (''Querying: '' @ name), Log (''   Query: '' @ query)]\<rparr>"
  let ?req = "query_request e query"
  have "axios e ?req ?w2 = (Inl (AxiosError msg None), ?w2\<lparr>calls := calls ?w2 @ [?req]\<rparr>)"
    using assms by (intro axios_unanswered) simp_all
  then show ?thesis
    by (simp add: query_with_unfold query_failed_eq printed_def)
qed

lemma queryPrometheus_eq: "queryPrometheus e query name = query_with e True query name"
  by (simp add: queryPrometheus_def query_with_def)

lemma simple_queryPrometheus_eq:
  "simple_queryPrometheus e = query_with e False ''demo_counter_total'' ''Demo Counter''"
  by (simp add: simple_queryPrometheus_def query_with_def)

lemma run_queries_summary:
  "fst (run_queries e qs w) = Inr ()
   \<and> calls (snd (run_queries e qs w)) = calls w @ map (\<lambda>q. query_request e (fst q)) qs"
proof (induction qs arbitrary: w)
  case Nil
  then show ?case by (simp add: return_io_def)
next
  case (Cons q qs)
  obtain w1 where w1: "queryPrometheus e (fst q) (snd q) w = (Inr (), w1)"
     "calls w1 = calls w @ [query_request e (fst q)]"
    using query_with_summary[of e True "fst q" "snd q" w] io_pair[of "queryPrometheus e (fst q) (snd q)" w]
    by (simp add: queryPrometheus_eq)
  let ?w2 = "w1\<lparr>console := console w1 @ [Log []]\<rparr>"
  have "run_queries e (q # qs) w = run_queries e qs ?w2"
    using w1(1) by (simp add: bind_io_def console_log_def)
  with Cons[of ?w2] w1(2) show ?case by simp
qed

lemma io_ex:
  assumes "fst (m w) = Inr x" "calls (snd (m w)) = cs"
  shows "\<exists>w'. m w = (Inr x, w') \<and> calls w' = cs"
proof (intro exI conjI)
  show "m w = (Inr x, snd (m w))" using assms(1) by (simp add: prod_eq_iff)
  show "calls (snd (m w)) = cs" by (rule assms(2))
qed

lemma log_all_calls:
  "\<exists>w'. log_all ss w = (Inr (), w') \<and> calls w' = calls w"
  by (simp add: log_all_eq)

lemma status_ex:
  "\<exists>w'. getPrometheusStatus e w = (Inr (succeeded (http e (length (calls w)) (health_request e))), w')
        \<and> calls w' = calls w @ [health_request e]"
  using getPrometheusStatus_summary[of e w] by (intro io_ex) simp_all

lemma simple_send_ex:
  "\<exists>w'. simple_generateAndSendMetrics e w = (Inr (), w') \<and> calls w' = calls w @ [push_request e]"
  using simple_send_summary[of e w]
  by (intro io_ex) (simp_all add: simple_generateAndSendMetrics_def)

lemma run_queries_ex:
  "\<exists>w'. run_queries e qs w = (Inr (), w')
        \<and> calls w' = calls w @ map (\<lambda>q. query_request e (fst q)) qs"
  using run_queries_summary[of e qs w] by (intro io_ex) simp_all

lemma simple_query_ex:
  "\<exists>w'. simple_queryPrometheus e w = (Inr (), w')
        \<and> calls w' = calls w @ [query_request e ''demo_counter_total'']"
  using query_with_summary[of e False "''demo_counter_total''" "''Demo Counter''" w]
  by (intro io_ex) (simp_all add: simple_queryPrometheus_eq)

text \<open>A run whose health check fails.\<close>

lemma main_unhealthy:
  fixes e :: "'p env"
  assumes "\<not> succeeded (http e 0 (health_request e))"
  shows "\<exists>w'. main e start = (Inr (Some 1), w') \<and> calls w' = [health_request e]"
proof -
  obtain w1 where w1: "log_all [''Enhanced Prometheus Remote Write Test'',
                       ''Prometheus URL: '' @ PROMETHEUS_URL e,
                       replicate 50 CHR ''=''] (start :: 'p world) = (Inr (), w1)"
      "calls w1 = calls (start :: 'p world)"
    using log_all_calls by blast
  have c1: "calls w1 = []" using w1(2) by (simp add: start_def)
  obtain w2 where w2: "getPrometheusStatus e w1 = (Inr False, w2)" "calls w2 = [health_request e]"
    using status_ex[of e w1] assms c1 by auto
  obtain w3 where w3: "log_all [''\<newline>Make sure Prometheus is running and accessible.'',
                                 ''   You can start it with: docker-compose up -d''] w2 = (Inr (), w3)"
      "calls w3 = calls w2"
    using log_all_calls by blast
  have "main e start = (Inr (Some 1), w3)"
    unfolding main_def
    by (simp only: bind_io_def w1(1) w2(1) w3(1) return_io_def prod.case sum.case
          not_False_eq_True if_True)
  with w3(2) w2(2) show ?thesis by simp
qed

lemma simple_main_unhealthy:
  fixes e :: "'p env"
  assumes "\<not> succeeded (http e 0 (health_request e))"
  shows "\<exists>w'. simple_main e start = (Inr (Some 1), w') \<and> calls w' = [health_request e]"
proof -
  obtain w1 where w1: "log_all [''Simple Prometheus Remote Write Test'',
                       ''Prometheus URL: '' @ PROMETHEUS_URL e,
                       replicate 50 CHR ''=''] (start :: 'p world) = (Inr (), w1)"
      "calls w1 = calls (start :: 'p world)"
    using log_all_calls by blast
  have c1: "calls w1 = []" using w1(2) by (simp add: start_def)
  obtain w2 where w2: "getPrometheusStatus e w1 = (Inr False, w2)" "calls w2 = [health_request e]"
    using status_ex[of e w1] assms c1 by auto
  obtain w3 where w3: "log_all [''\<newline>Make sure Prometheus is running and accessible.'',
                                 ''   You can start it with: docker-compose up -d''] w2 = (Inr (), w3)"
      "calls w3 = calls w2"
    using log_all_calls by blast
  have "simple_main e start = (Inr (Some 1), w3)"
    unfolding simple_main_def
    by (simp only: bind_io_def w1(1) w2(1) w3(1) return_io_def prod.case sum.case
          not_False_eq_True if_True)
  with w3(2) w2(2) show ?thesis by simp
qed

text \<open>A run whose health check succeeds.\<close>

lemma main_healthy:
  fixes e :: "'p env"
  assumes "succeeded (http e 0 (health_request e))"
  shows "\<exists>w'. main e start = (Inr None, w')
          \<and> calls w' = health_request e # push_request e
                        # map (\<lambda>q. query_request e (fst q)) queries"
proof -
  obtain w1 where w1: "log_all [''Enhanced Prometheus Remote Write Test'',
                       ''Prometheus URL: '' @ PROMETHEUS_URL e,
                       replicate 50 CHR ''=''] (start :: 'p world) = (Inr (), w1)"
      "calls w1 = calls (start :: 'p world)"
    using log_all_calls by blast
  have c1: "calls w1 = []" using w1(2) by (simp add: start_def)
  obtain w2 where w2: "getPrometheusStatus e w1 = (Inr True, w2)" "calls w2 = [health_request e]"
    using status_ex[of e w1] assms c1 by auto
  let ?w3 = "w2\<lparr>console := console w2 @ [Log ''\<newline>Generating and sending metrics...'']\<rparr>"
  have w3: "console_log ''\<newline>Generating and sending metrics...'' w2 = (Inr (), ?w3)"
    by (simp add: console_log_def)
  obtain w4 where w4: "simple_generateAndSendMetrics e ?w3 = (Inr (), w4)"
      "calls w4 = calls ?w3 @ [push_request e]"
    using simple_send_ex by blast
  obtain w5 where w5: "log_all [''\<newline>Waiting for metrics to be processed...'',
                                ''\<newline>Running queries...''] w4 = (Inr (), w5)"
      "calls w5 = calls w4"
    using log_all_calls by blast
  obtain w6 where w6: "run_queries e queries w5 = (Inr (), w6)"
      "calls w6 = calls w5 @ map (\<lambda>q. query_request e (fst q)) queries"
    using run_queries_ex by blast
  obtain w7 where w7: "log_all [''Test completed!'', ''\<newline>Tips:'',
                                   ''   - Visit http://localhost:9090 for Prometheus UI'',
                                   ''   - Run this test again to see updated values'',
                                   ''   - Try queries like: demo_counter_total{service=\"demo-service\"}''] w6
                          = (Inr (), w7)"
      "calls w7 = calls w6"
    using log_all_calls by blast
  have "main e start = (Inr None, w7)"
    unfolding main_def
    by (simp only: bind_io_def w1(1) w2(1) w3 w4(1) w5(1) w6(1) w7(1) return_io_def
          prod.case sum.case not_True_eq_False if_False)
  moreover have "calls w7 = health_request e # push_request e
                        # map (\<lambda>q. query_request e (fst q)) queries"
    using w7(2) w6(2) w5(2) w4(2) w2(2) by simp
  ultimately show ?thesis by blast
qed

lemma simple_main_healthy:
  fixes e :: "'p env"
  assumes "succeeded (http e 0 (health_request e))"
  shows "\<exists>w'. simple_main e start = (Inr None, w')
          \<and> calls w' = [health_request e, push_request e, query_request e ''demo_counter_total'']"
proof -
  obtain w1 where w1: "log_all [''Simple Prometheus Remote Write Test'',
                       ''Prometheus URL: '' @ PROMETHEUS_URL e,
                       replicate 50 CHR ''=''] (start :: 'p world) = (Inr (), w1)"
      "calls w1 = calls (start :: 'p world)"
    using log_all_calls by blast
  have c1: "calls w1 = []" using w1(2) by (simp add: start_def)
  obtain w2 where w2: "getPrometheusStatus e w1 = (Inr True, w2)" "calls w2 = [health_request e]"
    using status_ex[of e w1] assms c1 by auto
  let ?w3 = "w2\<lparr>console := console w2 @ [Log ''\<newline>Generating and sending metrics...'']\<rparr>"
  have w3: "console_log ''\<newline>Generating and sending metrics...'' w2 = (Inr (), ?w3)"
    by (simp add: console_log_def)
  obtain w4 where w4: "simple_generateAndSendMetrics e ?w3 = (Inr (), w4)"
      "calls w4 = calls ?w3 @ [push_request e]"
    using simple_send_ex by blast
  obtain w5 where w5: "log_all [''\<newline>Waiting for metrics to be processed...'',
                                ''\<newline>Running query...''] w4 = (Inr (), w5)"
      "calls w5 = calls w4"
    using log_all_calls by blast
  obtain w6 where w6: "simple_queryPrometheus e w5 = (Inr (), w6)"
      "calls w6 = calls w5 @ [query_request e ''demo_counter_total'']"
    using simple_query_ex by blast
  obtain w7 where w7: "log_all [''\<newline>Test completed!'', ''\<newline>Tips:'',
                                   ''   - Visit http://localhost:9090 for Prometheus UI'',
                                   ''   - Run this test again to see updated values''] w6
                          = (Inr (), w7)"
      "calls w7 = calls w6"
    using log_all_calls by blast
  have "simple_main e start = (Inr None, w7)"
    unfolding simple_main_def
    by (simp only: bind_io_def w1(1) w2(1) w3 w4(1) w5(1) w6(1) w7(1) return_io_def
          prod.case sum.case not_True_eq_False if_False)
  moreover have "calls w7 = [health_request e, push_request e, query_request e ''demo_counter_total'']"
    using w7(2) w6(2) w5(2) w4(2) w2(2) by simp
  ultimately show ?thesis by blast
qed

section \<open>Exit codes and queries\<close>

lemma run_exit:
  "script e start = (Inr r, w') \<Longrightarrow>
     run script e = ((case r of Some code \<Rightarrow> code | None \<Rightarrow> 0), w')"
  by (simp add: run_def split: option.splits)

text \<open>
  Claim C8.  When the health check gets no response, or a response outside 200 to 299,
  the process exits with code 1 and the health check is the only call it ever made: no
  write is attempted.  When the health check succeeds the run completes and the process
  exits with code 0, whatever happens to the send and to the queries.
\<close>

theorem failed_health_check_stops_run:
  fixes e :: "'p env"
  shows "(\<not> succeeded (http e 0 (health_request e)) \<longrightarrow>
            fst (run main e) = 1 \<and> calls (snd (run main e)) = [health_request e]
            \<and> fst (run simple_main e) = 1 \<and> calls (snd (run simple_main e)) = [health_request e])
         \<and> (succeeded (http e 0 (health_request e)) \<longrightarrow>
            fst (run main e) = 0 \<and> fst (run simple_main e) = 0)"
proof (intro conjI impI)
  assume u: "\<not> succeeded (http e 0 (health_request e))"
  from main_unhealthy[OF u] obtain w' where "main e start = (Inr (Some 1), w')"
    "calls w' = [health_request e]" by blast
  then show "fst (run main e) = 1" "calls (snd (run main e)) = [health_request e]"
    by (simp_all add: run_exit)
  from simple_main_unhealthy[OF u] obtain w' where "simple_main e start = (Inr (Some 1), w')"
    "calls w' = [health_request e]" by blast
  then show "fst (run simple_main e) = 1" "calls (snd (run simple_main e)) = [health_request e]"
    by (simp_all add: run_exit)
next
  assume h: "succeeded (http e 0 (health_request e))"
  from main_healthy[OF h] obtain w' where "main e start = (Inr None, w')" by blast
  then show "fst (run main e) = 0" by (simp add: run_exit)
  from simple_main_healthy[OF h] obtain w' where "simple_main e start = (Inr None, w')" by blast
  then show "fst (run simple_main e) = 0" by (simp add: run_exit)
qed

theorem failed_health_check_stops_run_witness:
  "fst (run simple_main (scripted_env (always (Response 503 (Text ''Service Unavailable''))) Resolved)) = 1
   \<and> calls (snd (run simple_main
               (scripted_env (always (Response 503 (Text ''Service Unavailable''))) Resolved)))
       = [Get ''http://localhost:9090/-/healthy'' [] 5000]
   \<and> fst (run main (scripted_env (always (NoResponse ''connect ECONNREFUSED 127.0.0.1:9090'')) Resolved)) = 1
   \<and> fst (run simple_main
            (scripted_env (healthy_then (NoResponse ''connect ECONNREFUSED 127.0.0.1:9090''))
                          (Rejected (Error ''fetch failed'')))) = 0"
proof -
  let ?a = "scripted_env (always (Response 503 (Text ''Service Unavailable''))) Resolved"
  let ?b = "scripted_env (always (NoResponse ''connect ECONNREFUSED 127.0.0.1:9090'')) Resolved"
  let ?c = "scripted_env (healthy_then (NoResponse ''connect ECONNREFUSED 127.0.0.1:9090''))
                          (Rejected (Error ''fetch failed''))"
  have a: "\<not> succeeded (http ?a 0 (health_request ?a))"
    by (simp add: scripted_env_def answer_by_index_def always_def)
  have b: "\<not> succeeded (http ?b 0 (health_request ?b))"
    by (simp add: scripted_env_def answer_by_index_def always_def)
  have c: "succeeded (http ?c 0 (health_request ?c))"
    by (simp add: scripted_env_def answer_by_index_def healthy_then_def)
  have r: "health_request ?a = Get ''http://localhost:9090/-/healthy'' [] 5000"
    by (simp add: health_request_def PROMETHEUS_URL_def scripted_env_def)
  show ?thesis
    using a b c r failed_health_check_stops_run[of ?a] failed_health_check_stops_run[of ?b]
      failed_health_check_stops_run[of ?c]
    by simp
qed

text \<open>
  Claim C9.  A query answered with status \<open>success\<close> and an empty result prints the
  \<open>No data found\<close> message with \<open>console.log\<close> and nothing as an error.  A query whose
  request gets no response (no connection, timeout) prints that one failure as an error
  and returns normally, so every query of the fixed sequence is sent in turn whatever the
  earlier ones met.
\<close>

theorem query_outcomes:
  fixes e :: "'p env"
  shows
    "(\<forall>status err.
        http e (length (calls w)) (query_request e query)
          = Response status (Json (PrometheusResponse ''success'' (Some (Some [])) err))
        \<and> 200 \<le> status \<and> status < 300
        \<longrightarrow> fst (queryPrometheus e query name w) = Inr ()
            \<and> printed w (snd (queryPrometheus e query name w))
                = [Log (''Querying: '' @ name), Log (''   Query: '' @ query),
                   Log ''   Status: success'', Log ''   No data found for this query''])
     \<and> (\<forall>msg.
        http e (length (calls w)) (query_request e query) = NoResponse msg
        \<longrightarrow> fst (queryPrometheus e query name w) = Inr ()
            \<and> printed w (snd (queryPrometheus e query name w))
                = [Log (''Querying: '' @ name), Log (''   Query: '' @ query),
                   Err (''   Error querying Prometheus: '' @ msg)])
     \<and> fst (run_queries e qs w) = Inr ()
     \<and> calls (snd (run_queries e qs w)) = calls w @ map (\<lambda>q. query_request e (fst q)) qs
     \<and> (succeeded (http e 0 (health_request e))
        \<longrightarrow> calls (snd (run main e))
              = health_request e # push_request e # map (\<lambda>q. query_request e (fst q)) queries)"
proof -
  have r: "fst (queryPrometheus e query name w) = Inr ()"
    using query_with_summary[of e True query name w] by (simp add: queryPrometheus_eq)
  have a: "printed w (snd (queryPrometheus e query name w))
                = [Log (''Querying: '' @ name), Log (''   Query: '' @ query),
                   Log ''   Status: success'', Log ''   No data found for this query'']"
    if "http e (length (calls w)) (query_request e query)
          = Response status (Json (PrometheusResponse ''success'' (Some (Some [])) err))"
       "200 \<le> status \<and> status < 300" for status err
    using query_with_empty[OF that] by (simp add: queryPrometheus_eq)
  have b: "printed w (snd (queryPrometheus e query name w))
                = [Log (''Querying: '' @ name), Log (''   Query: '' @ query),
                   Err (''   Error querying Prometheus: '' @ msg)]"
    if "http e (length (calls w)) (query_request e query) = NoResponse msg" for msg
    using query_with_unanswered[OF that] by (simp add: queryPrometheus_eq)
  have m: "calls (snd (run main e))
              = health_request e # push_request e # map (\<lambda>q. query_request e (fst q)) queries"
    if h: "succeeded (http e 0 (health_request e))"
  proof -
    from main_healthy[OF h] obtain w' where "main e start = (Inr None, w')"
      "calls w' = health_request e # push_request e # map (\<lambda>q. query_request e (fst q)) queries"
      by blast
    then show ?thesis by (simp add: run_exit)
  qed
  show ?thesis
    using r a b m run_queries_summary[of e qs w] by blast
qed

theorem query_outcomes_witness:
  "queryPrometheus
     (scripted_env (always (Response 200 (Json (PrometheusResponse ''success'' (Some (Some [])) None))))
                   Resolved)
     ''demo_gauge'' ''Demo Gauge'' start
     = (Inr (),
        \<lparr>console = [Log ''Querying: Demo Gauge'', Log ''   Query: demo_gauge'',
                    Log ''   Status: success'', Log ''   No data found for this query''],
         calls = [Get ''http://localhost:9090/api/v1/query'' [(''query'', ''demo_gauge'')] 10000]\<rparr>)
   \<and> printed start
        (snd (queryPrometheus
                (scripted_env (always (NoResponse ''timeout of 10000ms exceeded'')) Resolved)
                ''demo_gauge'' ''Demo Gauge'' start))
       = [Log ''Querying: Demo Gauge'', Log ''   Query: demo_gauge'',
          Err ''   Error querying Prometheus: timeout of 10000ms exceeded'']
   \<and> map (query_request
             (scripted_env (healthy_then (NoResponse ''timeout of 10000ms exceeded'')) Resolved))
          [''demo_counter_total'', ''demo_gauge'', ''http_requests_total'',
           ''http_request_duration_seconds'', ''custom_metric'']
       = drop 2 (calls (snd (run main
            (scripted_env (healthy_then (NoResponse ''timeout of 10000ms exceeded'')) Resolved))))"
proof -
  let ?a = "scripted_env (always (Response 200 (Json (PrometheusResponse ''success'' (Some (Some [])) None))))
                   Resolved"
  let ?b = "scripted_env (always (NoResponse ''timeout of 10000ms exceeded'')) Resolved"
  let ?c = "scripted_env (healthy_then (NoResponse ''timeout of 10000ms exceeded'')) Resolved"
  have a: "http ?a (length (calls (start :: unit world))) (query_request ?a ''demo_gauge'')
             = Response 200 (Json (PrometheusResponse ''success'' (Some (Some [])) None))
           \<and> (200::nat) \<le> 200 \<and> (200::nat) < 300"
    by (simp add: scripted_env_def answer_by_index_def always_def)
  have b: "http ?b (length (calls (start :: unit world))) (query_request ?b ''demo_gauge'')
             = NoResponse ''timeout of 10000ms exceeded''"
    by (simp add: scripted_env_def answer_by_index_def always_def)
  have c: "succeeded (http ?c 0 (health_request ?c))"
    by (simp add: scripted_env_def answer_by_index_def healthy_then_def)
  have q: "query_request ?a ''demo_gauge''
             = Get ''http://localhost:9090/api/v1/query'' [(''query'', ''demo_gauge'')] 10000"
    by (simp add: query_request_def PROMETHEUS_URL_def scripted_env_def)
  have whole: "m w = (r, \<lparr>console = c', calls = k\<rparr>)"
    if "fst (m w) = r" "console (snd (m w)) = c'" "calls (snd (m w)) = k"
    for m :: "(unit, unit) io" and w r c' k
    using that by (cases "m w") auto
  have qa: "fst (queryPrometheus ?a ''demo_gauge'' ''Demo Gauge'' start) = Inr ()
      \<and> printed start (snd (queryPrometheus ?a ''demo_gauge'' ''Demo Gauge'' start))
          = [Log (''Querying: '' @ ''Demo Gauge''), Log (''   Query: '' @ ''demo_gauge''),
             Log ''   Status: success'', Log ''   No data found for this query'']"
    using query_outcomes[of ?a start "''demo_gauge''" "''Demo Gauge''" "[]"] a by blast
  have qb: "printed start (snd (queryPrometheus ?b ''demo_gauge'' ''Demo Gauge'' start))
          = [Log (''Querying: '' @ ''Demo Gauge''), Log (''   Query: '' @ ''demo_gauge''),
             Err (''   Error querying Prometheus: '' @ ''timeout of 10000ms exceeded'')]"
    using query_outcomes[of ?b start "''demo_gauge''" "''Demo Gauge''" "[]"] b by blast
  have qc: "calls (snd (run main ?c))
              = health_request ?c # push_request ?c # map (\<lambda>q. query_request ?c (fst q)) queries"
    using query_outcomes[of ?c start "''demo_gauge''" "''Demo Gauge''" "[]"] c by blast
  have cq: "calls (snd (queryPrometheus ?a ''demo_gauge'' ''Demo Gauge'' start))
              = [query_request ?a ''demo_gauge'']"
    using query_with_summary[of ?a True "''demo_gauge''" "''Demo Gauge''" start]
    by (simp add: queryPrometheus_eq start_def)
  have first: "queryPrometheus ?a ''demo_gauge'' ''Demo Gauge'' start
     = (Inr (),
        \<lparr>console = [Log ''Querying: Demo Gauge'', Log ''   Query: demo_gauge'',
                    Log ''   Status: success'', Log ''   No data found for this query''],
         calls = [Get ''http://localhost:9090/api/v1/query'' [(''query'', ''demo_gauge'')] 10000]\<rparr>)"
    using qa cq q by (intro whole) (simp_all add: printed_def start_def)
  show ?thesis
    using first qb qc by (simp add: queries_def)
qed

end
